theory Spec2Isabelle
  imports Complex_Main
begin

section \<open>The page: elements, inline styles, window\<close>

text \<open>
  The controller of \<^verbatim>\<open>src/index.js\<close> (class \<^verbatim>\<open>CustomNavbarEffects\<close>) works on the
  DOM of the host page. An element is identified by a number; the store \<open>nodes\<close> maps
  each identifier to what the controller reads or writes of that element: its class
  list, the three inline style properties it sets, its rendered width and its place in
  the tree. An absent element (\<^verbatim>\<open>null\<close> or \<^verbatim>\<open>undefined\<close>) is \<open>None\<close>.

  Only the controller writes to the elements it holds.
\<close>

subsection \<open>Numbers\<close>

text \<open>
  A JavaScript number is an IEEE 754 double. The finite doubles are the reals that
  rounding to nearest, ties to even, with a significand of 53 bits and exponents from
  -1022 (below which the spacing stays at \<^verbatim>\<open>2^-1074\<close>) leaves as they are;
  a subtraction gives the double nearest to the exact difference. \<^verbatim>\<open>NaN\<close> and the
  infinities are not modelled, and the exponent has no upper bound here: where the
  code's difference overflows to \<^verbatim>\<open>Infinity\<close> the model's is a large number, and
  both exceed every threshold. Scroll offsets and the threshold are doubles; the
  transition duration is a whole number of milliseconds and \<^verbatim>\<open>offsetWidth\<close> a
  natural number.
\<close>

definition round_half_even :: "real \<Rightarrow> int" where
  "round_half_even r =
     (let f = \<lfloor>r\<rfloor>; d = r - of_int f
      in if d < 1 / 2 then f else if 1 / 2 < d then f + 1 else if even f then f else f + 1)"

text \<open>The exponent of the spacing between the doubles around \<open>x\<close>.\<close>

definition ulp_exponent :: "real \<Rightarrow> int" where
  "ulp_exponent x = max \<lfloor>log 2 \<bar>x\<bar>\<rfloor> (- 1022) - 52"

definition round_to_double :: "real \<Rightarrow> real" where
  "round_to_double x =
     sgn x * (2 powr of_int (ulp_exponent x)
              * of_int (round_half_even (\<bar>x\<bar> / 2 powr of_int (ulp_exponent x))))"

typedef double = "{x::real. round_to_double x = x}"
  morphisms num Abs_double
  by (rule exI [of _ 0]) (simp add: round_to_double_def)

text \<open>The double a numeric literal or an exact result denotes.\<close>

definition dbl :: "real \<Rightarrow> double" where
  "dbl x = Abs_double (round_to_double x)"

text \<open>The operators \<^verbatim>\<open>a - b\<close> and \<^verbatim>\<open>Math.abs(a)\<close> on numbers.\<close>

definition double_minus :: "double \<Rightarrow> double \<Rightarrow> double" where
  "double_minus a b = dbl (num a - num b)"

definition double_abs :: "double \<Rightarrow> double" where
  "double_abs a = dbl \<bar>num a\<bar>"

subsection \<open>Elements and the instance\<close>

type_synonym node = nat

record element =
  classList :: "string list"
  style_transition :: string
  style_opacity :: string
  style_width :: string
  offsetWidth :: nat
  parentElement :: "node option"
  children :: "node list"

datatype ready_state = Loading | Interactive | Complete

text \<open>
  The errors the code meets: its own \<^verbatim>\<open>Error\<close>, the \<^verbatim>\<open>TypeError\<close> of a property
  read on \<^verbatim>\<open>null\<close>, and the \<^verbatim>\<open>SyntaxError\<close> that \<^verbatim>\<open>querySelector\<close> throws on a
  selector it cannot parse. The messages of the last two are the engine's; the ones
  here stand for them.
\<close>

datatype error = Error string | TypeError string | SyntaxError string

record nav_config =
  containerSelector :: string
  ctaBtnContainerSelector :: string
  logoContainerSelector :: string
  navbarMainSectionSelector :: string
  navbarItemsSectionSelector :: string
  scrollThreshold :: double
  transitionDuration :: int

text \<open>An options object: each documented field is given or left out.\<close>

record nav_options =
  opt_containerSelector :: "string option"
  opt_ctaBtnContainerSelector :: "string option"
  opt_logoContainerSelector :: "string option"
  opt_navbarMainSectionSelector :: "string option"
  opt_navbarItemsSectionSelector :: "string option"
  opt_scrollThreshold :: "double option"
  opt_transitionDuration :: "int option"

record nav_elements =
  container :: "node option"
  ctaBtnContainer :: "node option"
  logoContainer :: "node option"
  navbarMainSection :: "node option"
  navbarItemsSection :: "node option"
  leftEmpty :: "node option"
  rightEmpty :: "node option"

record nav_dimensions =
  leftEmptyWidth :: "nat option"
  rightEmptyWidth :: "nat option"

record scroll_state =
  lastScrollY :: double
  isScrollingUp :: bool
  isInitialized :: bool

text \<open>
  One record holds the instance (\<open>config\<close>, \<open>elements\<close>, \<open>dimensions\<close>,
  \<open>scrollState\<close>), whether each of its three bound handlers is registered, and the
  part of \<^verbatim>\<open>window\<close> and \<^verbatim>\<open>document\<close> the code touches.
\<close>

record nav_state =
  config :: nav_config
  elements :: nav_elements
  dimensions :: nav_dimensions
  scrollState :: scroll_state
  scrollListener :: bool
  resizeListener :: bool
  loadListener :: bool
  scrollY :: double
  readyState :: ready_state
  querySelector :: "string \<Rightarrow> error + node option"
  nodes :: "node \<Rightarrow> element"
  console :: "(string \<times> error) list"

section \<open>Library behaviour the code relies on\<close>

definition digit_char :: "nat \<Rightarrow> char" where
  "digit_char d = ''0123456789'' ! d"

fun digits :: "nat \<Rightarrow> string" where
  "digits n = (if n < 10 then [digit_char n] else digits (n div 10) @ [digit_char (n mod 10)])"

declare digits.simps [simp del]

text \<open>A whole number inside a template literal.\<close>

definition number_to_string :: "int \<Rightarrow> string" where
  "number_to_string i = (if i < 0 then CHR ''-'' # digits (nat (- i)) else digits (nat i))"

text \<open>\<^verbatim>\<open>Array.prototype.join\<close> on strings.\<close>

fun join :: "string \<Rightarrow> string list \<Rightarrow> string" where
  "join sep [] = []"
| "join sep [x] = x"
| "join sep (x # y # ys) = x @ sep @ join sep (y # ys)"

text \<open>\<^verbatim>\<open>HTMLCollection.item\<close>: \<^verbatim>\<open>null\<close> past the end.\<close>

definition item :: "node list \<Rightarrow> nat \<Rightarrow> node option" where
  "item xs n = (if n < length xs then Some (xs ! n) else None)"

text \<open>\<^verbatim>\<open>DOMTokenList\<close>: \<^verbatim>\<open>remove\<close> drops the token, \<^verbatim>\<open>add\<close> appends it unless present.\<close>

definition token_remove :: "string \<Rightarrow> string list \<Rightarrow> string list" where
  "token_remove t xs = removeAll t xs"

definition token_add :: "string \<Rightarrow> string list \<Rightarrow> string list" where
  "token_add t xs = (if t \<in> set xs then xs else xs @ [t])"

definition classList_remove :: "node \<Rightarrow> string \<Rightarrow> nav_state \<Rightarrow> nav_state" where
  "classList_remove e t s =
     s\<lparr>nodes := (nodes s)(e := (nodes s e)\<lparr>classList := token_remove t (classList (nodes s e))\<rparr>)\<rparr>"

definition classList_add :: "node \<Rightarrow> string \<Rightarrow> nav_state \<Rightarrow> nav_state" where
  "classList_add e t s =
     s\<lparr>nodes := (nodes s)(e := (nodes s e)\<lparr>classList := token_add t (classList (nodes s e))\<rparr>)\<rparr>"

definition set_transition :: "node \<Rightarrow> string \<Rightarrow> nav_state \<Rightarrow> nav_state" where
  "set_transition e v s = s\<lparr>nodes := (nodes s)(e := (nodes s e)\<lparr>style_transition := v\<rparr>)\<rparr>"

definition set_opacity :: "node \<Rightarrow> string \<Rightarrow> nav_state \<Rightarrow> nav_state" where
  "set_opacity e v s = s\<lparr>nodes := (nodes s)(e := (nodes s e)\<lparr>style_opacity := v\<rparr>)\<rparr>"

definition set_width :: "node \<Rightarrow> string \<Rightarrow> nav_state \<Rightarrow> nav_state" where
  "set_width e v s = s\<lparr>nodes := (nodes s)(e := (nodes s e)\<lparr>style_width := v\<rparr>)\<rparr>"

text \<open>The template literal \<^verbatim>\<open>`${w}px`\<close>.\<close>

definition px :: "nat \<Rightarrow> string" where
  "px w = digits w @ ''px''"

section \<open>The class \<^verbatim>\<open>CustomNavbarEffects\<close>\<close>

definition default_config :: nav_config where
  \<open>default_config =
     \<lparr>containerSelector = ''[data-framer-name="Main Navbar"]'',
      ctaBtnContainerSelector = ''[data-framer-name="CTA Container"]'',
      logoContainerSelector = ''[data-framer-name="Logo"]'',
      navbarMainSectionSelector = ''[data-framer-name="Navbar Main Section"]'',
      navbarItemsSectionSelector = ''[data-framer-name="Nav Items"]'',
      scrollThreshold = dbl 10,
      transitionDuration = 200\<rparr>\<close>

text \<open>The object spread \<^verbatim>\<open>{ ...c, ...o }\<close>: a field given in \<open>o\<close> wins.\<close>

definition spread :: "nav_config \<Rightarrow> nav_options \<Rightarrow> nav_config" where
  "spread c o' =
     \<lparr>containerSelector =
        (case opt_containerSelector o' of None \<Rightarrow> containerSelector c | Some v \<Rightarrow> v),
      ctaBtnContainerSelector =
        (case opt_ctaBtnContainerSelector o' of None \<Rightarrow> ctaBtnContainerSelector c | Some v \<Rightarrow> v),
      logoContainerSelector =
        (case opt_logoContainerSelector o' of None \<Rightarrow> logoContainerSelector c | Some v \<Rightarrow> v),
      navbarMainSectionSelector =
        (case opt_navbarMainSectionSelector o' of None \<Rightarrow> navbarMainSectionSelector c | Some v \<Rightarrow> v),
      navbarItemsSectionSelector =
        (case opt_navbarItemsSectionSelector o' of None \<Rightarrow> navbarItemsSectionSelector c | Some v \<Rightarrow> v),
      scrollThreshold =
        (case opt_scrollThreshold o' of None \<Rightarrow> scrollThreshold c | Some v \<Rightarrow> v),
      transitionDuration =
        (case opt_transitionDuration o' of None \<Rightarrow> transitionDuration c | Some v \<Rightarrow> v)\<rparr>"

text \<open>The empty options object \<^verbatim>\<open>{}\<close>.\<close>

definition no_options :: nav_options where
  "no_options =
     \<lparr>opt_containerSelector = None, opt_ctaBtnContainerSelector = None,
      opt_logoContainerSelector = None, opt_navbarMainSectionSelector = None,
      opt_navbarItemsSectionSelector = None, opt_scrollThreshold = None,
      opt_transitionDuration = None\<rparr>"

definition no_elements :: nav_elements where
  "no_elements =
     \<lparr>container = None, ctaBtnContainer = None, logoContainer = None,
      navbarMainSection = None, navbarItemsSection = None,
      leftEmpty = None, rightEmpty = None\<rparr>"

definition no_dimensions :: nav_dimensions where
  "no_dimensions = \<lparr>leftEmptyWidth = None, rightEmptyWidth = None\<rparr>"

text \<open>\<^verbatim>\<open>this.elements[key]\<close> for the keys the validation reads.\<close>

definition element_at :: "nav_elements \<Rightarrow> string \<Rightarrow> node option" where
  "element_at els key =
     (if key = ''container'' then container els
      else if key = ''navbarMainSection'' then navbarMainSection els
      else if key = ''navbarItemsSection'' then navbarItemsSection els
      else None)"

definition requiredElements :: "string list" where
  "requiredElements = [''container'', ''navbarMainSection'', ''navbarItemsSection'']"

text \<open>
  \<open>cacheElements\<close> looks the five selectors up in the order of the object literal. A
  lookup that throws ends the method before \<^verbatim>\<open>this.elements\<close> is assigned. Once the
  five entries are assigned the method validates, so a throw from there on leaves them
  behind: the error comes with the state at the throw.
\<close>

definition cacheElements :: "nav_state \<Rightarrow> (error \<times> nav_state) + nav_state" where
  "cacheElements s =
     (case querySelector s (containerSelector (config s)) of
        Inl err \<Rightarrow> Inl (err, s)
      | Inr c \<Rightarrow>
     (case querySelector s (ctaBtnContainerSelector (config s)) of
        Inl err \<Rightarrow> Inl (err, s)
      | Inr cta \<Rightarrow>
     (case querySelector s (logoContainerSelector (config s)) of
        Inl err \<Rightarrow> Inl (err, s)
      | Inr logo \<Rightarrow>
     (case querySelector s (navbarMainSectionSelector (config s)) of
        Inl err \<Rightarrow> Inl (err, s)
      | Inr main \<Rightarrow>
     (case querySelector s (navbarItemsSectionSelector (config s)) of
        Inl err \<Rightarrow> Inl (err, s)
      | Inr items \<Rightarrow>
     (let els = \<lparr>container = c, ctaBtnContainer = cta, logoContainer = logo,
                 navbarMainSection = main, navbarItemsSection = items,
                 leftEmpty = None, rightEmpty = None\<rparr>;
          s1 = s\<lparr>elements := els\<rparr>;
          missingElements = filter (\<lambda>key. element_at els key = None) requiredElements
      in if length missingElements > 0
         then Inl (Error (''Required elements not found: '' @ join '', '' missingElements), s1)
         else (case navbarMainSection els of
                 None \<Rightarrow> Inl (TypeError ''navbarMainSection is null'', s1)
               | Some m \<Rightarrow>
                  (case parentElement (nodes s1 m) of
                     None \<Rightarrow> Inl (TypeError ''parentElement is null'', s1)
                   | Some p \<Rightarrow>
                       (let parentChildren = children (nodes s1 p)
                        in Inr (s1\<lparr>elements := els\<lparr>leftEmpty := item parentChildren 0,
                                                    rightEmpty := item parentChildren 2\<rparr>\<rparr>))))))))))"

definition setupTransitions :: "nav_state \<Rightarrow> nav_state" where
  "setupTransitions s =
     (let transitionStyle =
            ''opacity '' @ number_to_string (transitionDuration (config s)) @ ''ms ease-in-out'';
          widthTransitionStyle =
            ''width '' @ number_to_string (transitionDuration (config s)) @ ''ms ease-in-out'';
          s1 = (case navbarItemsSection (elements s) of
                  Some e \<Rightarrow> set_transition e transitionStyle s | None \<Rightarrow> s);
          s2 = (case leftEmpty (elements s1) of
                  Some e \<Rightarrow> set_transition e widthTransitionStyle s1 | None \<Rightarrow> s1);
          s3 = (case rightEmpty (elements s2) of
                  Some e \<Rightarrow> set_transition e widthTransitionStyle s2 | None \<Rightarrow> s2)
      in s3)"

definition updateDimensions :: "nav_state \<Rightarrow> nav_state" where
  "updateDimensions s =
     (let s1 = (case leftEmpty (elements s) of
                  Some e \<Rightarrow>
                    (let w = offsetWidth (nodes s e);
                         t = s\<lparr>dimensions := (dimensions s)\<lparr>leftEmptyWidth := Some w\<rparr>\<rparr>
                     in set_width e (px w) t)
                | None \<Rightarrow> s);
          s2 = (case rightEmpty (elements s1) of
                  Some e \<Rightarrow>
                    (let w = offsetWidth (nodes s1 e);
                         t = s1\<lparr>dimensions := (dimensions s1)\<lparr>rightEmptyWidth := Some w\<rparr>\<rparr>
                     in set_width e (px w) t)
                | None \<Rightarrow> s1)
      in s2)"

definition handleLoad :: "nav_state \<Rightarrow> nav_state" where
  "handleLoad s =
     (let s1 = updateDimensions s
      in s1\<lparr>scrollState := (scrollState s1)\<lparr>lastScrollY := scrollY s1\<rparr>\<rparr>)"

definition handleResize :: "nav_state \<Rightarrow> nav_state" where
  "handleResize s = updateDimensions s"

definition bindEvents :: "nav_state \<Rightarrow> nav_state" where
  "bindEvents s =
     (let s1 = s\<lparr>scrollListener := True, resizeListener := True\<rparr>
      in if readyState s1 = Loading then s1\<lparr>loadListener := True\<rparr> else handleLoad s1)"

definition init :: "nav_state \<Rightarrow> nav_state" where
  "init s =
     (case cacheElements s of
        Inl (err, s1) \<Rightarrow>
          s1\<lparr>console := console s1 @ [(''CustomNavbarEffects initialization failed:'', err)]\<rparr>
      | Inr s1 \<Rightarrow>
          (let s2 = setupTransitions s1;
               s3 = bindEvents s2;
               s4 = updateDimensions s3
           in s4\<lparr>scrollState := (scrollState s4)\<lparr>isInitialized := True\<rparr>\<rparr>))"

text \<open>
  \<^verbatim>\<open>new CustomNavbarEffects(options)\<close> on a page: the second argument is the page the
  script runs in; the instance fields and the registrations of the fresh bound handlers
  start from the constructor's values.
\<close>

definition constructor :: "nav_options \<Rightarrow> nav_state \<Rightarrow> nav_state" where
  "constructor options page =
     init (page\<lparr>config := spread default_config options,
                elements := no_elements,
                dimensions := no_dimensions,
                scrollState := \<lparr>lastScrollY = dbl 0, isScrollingUp = False, isInitialized = False\<rparr>,
                scrollListener := False, resizeListener := False, loadListener := False\<rparr>)"

text \<open>
  \<open>showNavbar\<close> and \<open>hideNavbar\<close> dereference \<^verbatim>\<open>this.elements.container\<close> without
  a check: on an absent container the first statement throws, before any write.
\<close>

definition showNavbar :: "nav_state \<Rightarrow> error + nav_state" where
  "showNavbar s =
     (case container (elements s) of
        None \<Rightarrow> Inl (TypeError ''container is null'')
      | Some c \<Rightarrow>
          (let s1 = classList_remove c ''scroll-down'' s;
               s2 = classList_add c ''scroll-up'' s1;
               s3 = (case navbarItemsSection (elements s2) of
                       Some e \<Rightarrow> set_opacity e ''1'' s2 | None \<Rightarrow> s2);
               s4 = (case leftEmpty (elements s3) of
                       Some e \<Rightarrow>
                         (case leftEmptyWidth (dimensions s3) of
                            Some w \<Rightarrow> if w \<noteq> 0 then set_width e (px w) s3 else s3
                          | None \<Rightarrow> s3)
                     | None \<Rightarrow> s3);
               s5 = (case rightEmpty (elements s4) of
                       Some e \<Rightarrow>
                         (case rightEmptyWidth (dimensions s4) of
                            Some w \<Rightarrow> if w \<noteq> 0 then set_width e (px w) s4 else s4
                          | None \<Rightarrow> s4)
                     | None \<Rightarrow> s4)
           in Inr s5))"

definition hideNavbar :: "nav_state \<Rightarrow> error + nav_state" where
  "hideNavbar s =
     (case container (elements s) of
        None \<Rightarrow> Inl (TypeError ''container is null'')
      | Some c \<Rightarrow>
          (let s1 = classList_remove c ''scroll-up'' s;
               s2 = classList_add c ''scroll-down'' s1;
               s3 = (case navbarItemsSection (elements s2) of
                       Some e \<Rightarrow> set_opacity e ''0'' s2 | None \<Rightarrow> s2);
               s4 = (case leftEmpty (elements s3) of
                       Some e \<Rightarrow> set_width e ''0px'' s3 | None \<Rightarrow> s3);
               s5 = (case rightEmpty (elements s4) of
                       Some e \<Rightarrow> set_width e ''0px'' s4 | None \<Rightarrow> s4)
           in Inr s5))"

definition updateNavbarState :: "bool \<Rightarrow> nav_state \<Rightarrow> error + nav_state" where
  "updateNavbarState up s = (if up then showNavbar s else hideNavbar s)"

text \<open>
  The local constant \<^verbatim>\<open>isScrollingUp\<close> of \<open>handleScroll\<close> is passed to
  \<open>updateNavbarState\<close>; the only field of \<^verbatim>\<open>this.scrollState\<close> the handler assigns is
  \<^verbatim>\<open>lastScrollY\<close>. The distance is the absolute value of a difference of doubles,
  hence rounded; the two comparisons are exact.
\<close>

definition handleScroll :: "nav_state \<Rightarrow> error + nav_state" where
  "handleScroll s =
     (if \<not> isInitialized (scrollState s) then Inr s
      else (let currentScrollY = scrollY s;
                scrollDelta = double_abs (double_minus currentScrollY (lastScrollY (scrollState s)))
            in if num scrollDelta < num (scrollThreshold (config s)) then Inr s
               else (let up = num currentScrollY < num (lastScrollY (scrollState s))
                     in (case updateNavbarState up s of
                           Inl err \<Rightarrow> Inl err
                         | Inr s1 \<Rightarrow>
                             Inr (s1\<lparr>scrollState :=
                                       (scrollState s1)\<lparr>lastScrollY := currentScrollY\<rparr>\<rparr>)))))"

text \<open>
  \<^verbatim>\<open>if (newConfig.transitionDuration)\<close> tests the value, not the presence of the
  field: an absent field and the number 0 are both falsy.
\<close>

definition updateConfig :: "nav_options \<Rightarrow> nav_state \<Rightarrow> nav_state" where
  "updateConfig newConfig s =
     (let s1 = s\<lparr>config := spread (config s) newConfig\<rparr>
      in (case opt_transitionDuration newConfig of
            Some d \<Rightarrow> if d \<noteq> 0 then setupTransitions s1 else s1
          | None \<Rightarrow> s1))"

definition destroy :: "nav_state \<Rightarrow> nav_state" where
  "destroy s =
     (let s1 = s\<lparr>scrollListener := False, resizeListener := False, loadListener := False\<rparr>
      in s1\<lparr>scrollState := (scrollState s1)\<lparr>isInitialized := False\<rparr>\<rparr>)"

definition getScrollState :: "nav_state \<Rightarrow> scroll_state" where
  "getScrollState s = scrollState s"

definition getConfig :: "nav_state \<Rightarrow> nav_config" where
  "getConfig s = config s"


section \<open>Events\<close>

text \<open>
  The browser calls a handler only while it is registered. A scroll moves
  \<^verbatim>\<open>window.scrollY\<close> first; a resize gives every element a new rendered width;
  \<^verbatim>\<open>DOMContentLoaded\<close> fires once, when the document stops loading. An exception
  that leaves a handler is reported by the browser and the page goes on.
\<close>

datatype event =
    Scroll double
  | Resize "node \<Rightarrow> nat"
  | DOMContentLoaded
  | UpdateConfig nav_options
  | Destroy

definition relayout :: "(node \<Rightarrow> nat) \<Rightarrow> nav_state \<Rightarrow> nav_state" where
  "relayout f s = s\<lparr>nodes := (\<lambda>e. (nodes s e)\<lparr>offsetWidth := f e\<rparr>)\<rparr>"

fun dispatch :: "event \<Rightarrow> nav_state \<Rightarrow> nav_state" where
  "dispatch (Scroll y) s =
     (let s1 = s\<lparr>scrollY := y\<rparr>
      in if scrollListener s1
         then (case handleScroll s1 of
                 Inr s2 \<Rightarrow> s2
               | Inl err \<Rightarrow> s1\<lparr>console := console s1 @ [(''Uncaught'', err)]\<rparr>)
         else s1)"
| "dispatch (Resize f) s =
     (let s1 = relayout f s
      in if resizeListener s1 then handleResize s1 else s1)"
| "dispatch DOMContentLoaded s =
     (if readyState s = Loading
      then (let s1 = s\<lparr>readyState := Interactive\<rparr>
            in if loadListener s1 then handleLoad s1 else s1)
      else s)"
| "dispatch (UpdateConfig newConfig) s = updateConfig newConfig s"
| "dispatch Destroy s = destroy s"

fun run :: "event list \<Rightarrow> nav_state \<Rightarrow> nav_state" where
  "run [] s = s"
| "run (ev # evs) s = run evs (dispatch ev s)"

section \<open>The page of the README\<close>

text \<open>
  The markup of the README's basic usage: the root element (7) holds the head (9, with
  the title 10) and the body (8); the body holds the navbar (0) and, after it, the
  script; the navbar has three children, a side padding (1), the main section (2) and
  a second side padding (3); the main section holds the logo (4), the nav items (5)
  and the CTA container (6). The paddings render 80 and 60 pixels wide. The script
  stands at the end of the body, so the document is still loading when it runs.
\<close>

definition readme_nodes :: "node \<Rightarrow> element" where
  "readme_nodes e =
     \<lparr>classList = [], style_transition = [], style_opacity = [], style_width = [],
      offsetWidth = (if e = 1 then 80 else if e = 3 then 60 else 0),
      parentElement =
        (if e = 1 \<or> e = 2 \<or> e = 3 then Some 0
         else if e = 4 \<or> e = 5 \<or> e = 6 then Some 2
         else if e = 0 then Some 8
         else if e = 8 \<or> e = 9 then Some 7
         else if e = 10 then Some 9
         else None),
      children =
        (if e = 0 then [1, 2, 3] else if e = 2 then [4, 5, 6]
         else if e = 7 then [9, 8] else if e = 8 then [0] else if e = 9 then [10]
         else [])\<rparr>"

text \<open>
  The lookups on that page, for the selectors used here. The empty string is no
  selector: the lookup throws.
\<close>

definition readme_query :: "string \<Rightarrow> error + node option" where
  \<open>readme_query sel =
     (if sel = [] then Inl (SyntaxError ''The provided selector is empty'')
      else if sel = ''[data-framer-name="Main Navbar"]'' then Inr (Some 0)
      else if sel = ''[data-framer-name="Side padding (Color)"]'' then Inr (Some 1)
      else if sel = ''[data-framer-name="Navbar Main Section"]'' then Inr (Some 2)
      else if sel = ''[data-framer-name="Logo"]'' then Inr (Some 4)
      else if sel = ''[data-framer-name="Nav Items"]'' then Inr (Some 5)
      else if sel = ''[data-framer-name="CTA Container"]'' then Inr (Some 6)
      else if sel = ''html'' then Inr (Some 7)
      else if sel = ''body'' then Inr (Some 8)
      else Inr None)\<close>

definition readme_page :: nav_state where
  "readme_page =
     \<lparr>config = default_config, elements = no_elements, dimensions = no_dimensions,
      scrollState = \<lparr>lastScrollY = dbl 0, isScrollingUp = False, isInitialized = False\<rparr>,
      scrollListener = False, resizeListener = False, loadListener = False,
      scrollY = dbl 0, readyState = Loading, querySelector = readme_query,
      nodes = readme_nodes, console = []\<rparr>"

text \<open>The controller on the README's page, with the default configuration.\<close>

definition readme_nav :: nav_state where
  "readme_nav = constructor no_options readme_page"

text \<open>The same controller after the page was scrolled down to offset 50.\<close>

definition readme_down :: nav_state where
  "readme_down = run [Scroll (dbl 50)] readme_nav"

text \<open>
  The same controller after a resize that leaves the left padding 80 pixels wide and
  collapses every other element to width 0.
\<close>

definition readme_flat :: nav_state where
  "readme_flat = dispatch (Resize (\<lambda>e. if e = 1 then 80 else 0)) readme_nav"

text \<open>
  The README page loaded at the scroll offset 0.1, and its controller once the document
  has finished loading.
\<close>

definition offset_page :: nav_state where
  "offset_page = readme_page\<lparr>scrollY := dbl (1 / 10)\<rparr>"

definition offset_nav :: nav_state where
  "offset_nav = dispatch DOMContentLoaded (constructor no_options offset_page)"

text \<open>A page whose navbar holds the main section and nothing else.\<close>

definition narrow_page :: nav_state where
  "narrow_page =
     readme_page\<lparr>nodes := (\<lambda>e. if e = 0 then (readme_nodes 0)\<lparr>children := [2]\<rparr> else readme_nodes e)\<rparr>"

section \<open>Invariants of the controller\<close>

text \<open>
  A spacer the instance holds has a measured width in the cache, and its inline width is
  that width or zero. Should both spacer entries name one element, the two cached widths
  agree.
\<close>

definition pinned :: "nav_state \<Rightarrow> bool" where
  "pinned s \<longleftrightarrow>
     (\<forall>l. leftEmpty (elements s) = Some l \<longrightarrow>
        (\<exists>w. leftEmptyWidth (dimensions s) = Some w
           \<and> (style_width (nodes s l) = px w \<or> style_width (nodes s l) = ''0px'')))
   \<and> (\<forall>r. rightEmpty (elements s) = Some r \<longrightarrow>
        (\<exists>w. rightEmptyWidth (dimensions s) = Some w
           \<and> (style_width (nodes s r) = px w \<or> style_width (nodes s r) = ''0px'')))
   \<and> (\<forall>e. leftEmpty (elements s) = Some e \<longrightarrow> rightEmpty (elements s) = Some e \<longrightarrow>
        leftEmptyWidth (dimensions s) = rightEmptyWidth (dimensions s))"

text \<open>
  An initialized instance holds its required elements and has its scroll handler
  registered.
\<close>

definition ready :: "nav_state \<Rightarrow> bool" where
  "ready s \<longleftrightarrow>
     (isInitialized (scrollState s) \<longrightarrow>
        container (elements s) \<noteq> None
      \<and> navbarMainSection (elements s) \<noteq> None
      \<and> navbarItemsSection (elements s) \<noteq> None
      \<and> scrollListener s)"

text \<open>The truth value JavaScript gives a cached width: \<^verbatim>\<open>undefined\<close> and 0 are falsy.\<close>

definition truthy :: "nat option \<Rightarrow> bool" where
  "truthy c = (case c of Some w \<Rightarrow> w \<noteq> 0 | None \<Rightarrow> False)"

section \<open>Rounding to a double\<close>

lemma round_half_even_of_int [simp]: "round_half_even (of_int n) = n"
  by (simp add: round_half_even_def)

lemma round_half_even_bounds: "\<lfloor>r\<rfloor> \<le> round_half_even r \<and> round_half_even r \<le> \<lfloor>r\<rfloor> + 1"
  by (simp add: round_half_even_def Let_def)

lemma round_half_even_mono:
  assumes "r \<le> r'"
  shows "round_half_even r \<le> round_half_even r'"
proof (cases "\<lfloor>r\<rfloor> = \<lfloor>r'\<rfloor>")
  case True
  with assms have "r - of_int \<lfloor>r\<rfloor> \<le> r' - of_int \<lfloor>r'\<rfloor>" by simp
  with True show ?thesis
    by (auto simp add: round_half_even_def Let_def)
next
  case False
  with assms have "\<lfloor>r\<rfloor> < \<lfloor>r'\<rfloor>" by (simp add: floor_mono less_le)
  with round_half_even_bounds [of r] round_half_even_bounds [of r'] show ?thesis
    by linarith
qed

lemma round_half_even_ge: "of_int n \<le> r \<Longrightarrow> n \<le> round_half_even r"
  using round_half_even_mono [of "of_int n" r] by simp

lemma round_half_even_le: "r \<le> of_int n \<Longrightarrow> round_half_even r \<le> n"
  using round_half_even_mono [of r "of_int n"] by simp

lemma ulp_exponent_abs [simp]: "ulp_exponent \<bar>x\<bar> = ulp_exponent x"
  by (simp add: ulp_exponent_def)

lemma ulp_exponent_minus [simp]: "ulp_exponent (- x) = ulp_exponent x"
  by (simp add: ulp_exponent_def)

lemma ulp_exponent_mono:
  assumes "0 < x" "x \<le> y"
  shows "ulp_exponent x \<le> ulp_exponent y"
proof -
  from assms have "log 2 x \<le> log 2 y" by simp
  then have "\<lfloor>log 2 x\<rfloor> \<le> \<lfloor>log 2 y\<rfloor>" by (rule floor_mono)
  with assms show ?thesis by (simp add: ulp_exponent_def)
qed

lemma below_next_binade:
  assumes "0 < x"
  shows "x < (2::real) powr of_int (ulp_exponent x + 53)"
proof -
  have "x < (2::real) powr (of_int \<lfloor>log 2 x\<rfloor> + 1)"
    using assms floor_log_eq_powr_iff [of x 2 "\<lfloor>log 2 x\<rfloor>"] by simp
  also have "\<dots> \<le> (2::real) powr of_int (ulp_exponent x + 53)"
    using assms by (simp add: ulp_exponent_def)
  finally show ?thesis .
qed

lemma above_binade:
  assumes "0 < x" "- 1022 \<le> \<lfloor>log 2 x\<rfloor>"
  shows "(2::real) powr of_int (ulp_exponent x + 52) \<le> x"
proof -
  from assms have "ulp_exponent x + 52 = \<lfloor>log 2 x\<rfloor>" by (simp add: ulp_exponent_def)
  moreover have "(2::real) powr of_int \<lfloor>log 2 x\<rfloor> \<le> x"
    using assms floor_log_eq_powr_iff [of x 2 "\<lfloor>log 2 x\<rfloor>"] by simp
  ultimately show ?thesis by simp
qed

lemma two_powr_int: "0 \<le> k \<Longrightarrow> (2::real) powr of_int k = of_int (2 ^ nat k)"
  by (simp add: powr_real_of_int)

lemma scaled_below:
  assumes "0 < x"
  shows "x / (2::real) powr of_int (ulp_exponent x) < of_int (2 ^ 53)"
proof -
  have "x < (2::real) powr of_int (ulp_exponent x + 53)" using assms by (rule below_next_binade)
  also have "\<dots> = (2::real) powr of_int (ulp_exponent x) * (2::real) powr 53"
    by (simp add: powr_add)
  finally show ?thesis by (simp add: field_simps)
qed

lemma scaled_above:
  assumes "0 < x" "- 1022 \<le> \<lfloor>log 2 x\<rfloor>"
  shows "of_int (2 ^ 52) \<le> x / (2::real) powr of_int (ulp_exponent x)"
proof -
  have "(2::real) powr of_int (ulp_exponent x) * (2::real) powr 52 = (2::real) powr of_int (ulp_exponent x + 52)"
    by (simp add: powr_add)
  also have "\<dots> \<le> x" using assms by (rule above_binade)
  finally show ?thesis by (simp add: field_simps)
qed

lemma round_to_double_zero [simp]: "round_to_double 0 = 0"
  by (simp add: round_to_double_def)

lemma round_to_double_pos:
  "0 < x \<Longrightarrow> round_to_double x =
     (2::real) powr of_int (ulp_exponent x) * of_int (round_half_even (x / (2::real) powr of_int (ulp_exponent x)))"
  by (simp add: round_to_double_def)

lemma round_to_double_minus: "round_to_double (- x) = - round_to_double x"
  by (simp add: round_to_double_def sgn_minus)

lemma round_to_double_nonneg: "0 \<le> x \<Longrightarrow> 0 \<le> round_to_double x"
proof -
  assume "0 \<le> x"
  then have "0 \<le> x / (2::real) powr of_int (ulp_exponent x)" by simp
  then have "0 \<le> round_half_even (x / (2::real) powr of_int (ulp_exponent x))"
    using round_half_even_ge [of 0] by simp
  with \<open>0 \<le> x\<close> show ?thesis by (simp add: round_to_double_def sgn_if)
qed

lemma round_to_double_pos_mono:
  assumes "0 < x" "x \<le> y"
  shows "round_to_double x \<le> round_to_double y"
proof -
  let ?kx = "ulp_exponent x" and ?ky = "ulp_exponent y"
  from assms have y: "0 < y" by simp
  have le: "?kx \<le> ?ky" using assms by (rule ulp_exponent_mono)
  show ?thesis
  proof (cases "?kx = ?ky")
    case True
    from assms have "x / (2::real) powr of_int ?kx \<le> y / (2::real) powr of_int ?kx"
      by (simp add: divide_right_mono)
    then have "round_half_even (x / (2::real) powr of_int ?kx) \<le> round_half_even (y / (2::real) powr of_int ?kx)"
      by (rule round_half_even_mono)
    then have "(2::real) powr of_int ?kx * of_int (round_half_even (x / (2::real) powr of_int ?kx))
        \<le> (2::real) powr of_int ?kx * of_int (round_half_even (y / (2::real) powr of_int ?kx))"
      by (simp add: mult_left_mono)
    with True assms y show ?thesis by (simp add: round_to_double_pos)
  next
    case False
    with le have lt: "?kx + 1 \<le> ?ky" by simp
    have "- 1074 \<le> ?kx" by (simp add: ulp_exponent_def)
    moreover have "?ky = max \<lfloor>log 2 y\<rfloor> (- 1022) - 52"
      using y by (simp add: ulp_exponent_def)
    ultimately have "- 1022 \<le> \<lfloor>log 2 y\<rfloor>" using lt by linarith
    from scaled_above [OF y this]
    have "2 ^ 52 \<le> round_half_even (y / (2::real) powr of_int ?ky)"
      by (rule round_half_even_ge)
    then have "(2::real) powr of_int ?ky * of_int (2 ^ 52)
        \<le> (2::real) powr of_int ?ky * of_int (round_half_even (y / (2::real) powr of_int ?ky))"
      by (intro mult_left_mono) simp_all
    then have b: "(2::real) powr of_int (?ky + 52) \<le> round_to_double y"
      using y by (simp add: round_to_double_pos powr_add)
    from scaled_below [OF assms(1)]
    have "round_half_even (x / (2::real) powr of_int ?kx) \<le> 2 ^ 53"
      by (intro round_half_even_le) simp
    then have "(2::real) powr of_int ?kx * of_int (round_half_even (x / (2::real) powr of_int ?kx))
        \<le> (2::real) powr of_int ?kx * of_int (2 ^ 53)"
      by (intro mult_left_mono) simp_all
    then have a: "round_to_double x \<le> (2::real) powr of_int (?kx + 53)"
      using assms by (simp add: round_to_double_pos powr_add)
    from lt have "(2::real) powr of_int (?kx + 53) \<le> (2::real) powr of_int (?ky + 52)"
      by simp
    with a b show ?thesis by linarith
  qed
qed

lemma round_to_double_mono:
  assumes "x \<le> y"
  shows "round_to_double x \<le> round_to_double y"
proof -
  consider "0 < x" | "x \<le> 0" "0 \<le> y" | "y < 0" by linarith
  then show ?thesis
  proof cases
    case 1
    then show ?thesis using assms by (rule round_to_double_pos_mono)
  next
    case 2
    from 2(1) have "0 \<le> round_to_double (- x)" by (intro round_to_double_nonneg) simp
    then have "round_to_double x \<le> 0" by (simp add: round_to_double_minus)
    with round_to_double_nonneg [OF 2(2)] show ?thesis by linarith
  next
    case 3
    with assms have "0 < - y" "- y \<le> - x" by simp_all
    then have "round_to_double (- y) \<le> round_to_double (- x)" by (rule round_to_double_pos_mono)
    then show ?thesis by (simp add: round_to_double_minus)
  qed
qed

lemma round_to_double_abs: "\<bar>round_to_double x\<bar> = round_to_double \<bar>x\<bar>"
proof (cases "0 \<le> x")
  case True
  with round_to_double_nonneg [OF True] show ?thesis by simp
next
  case False
  then have "0 \<le> round_to_double (- x)" by (intro round_to_double_nonneg) simp
  with False show ?thesis by (simp add: round_to_double_minus)
qed


subsection \<open>Doubles are fixed points of the rounding\<close>

lemma round_to_double_exact:
  assumes "\<bar>x\<bar> / 2 powr of_int (ulp_exponent x) = of_int m"
  shows "round_to_double x = x"
proof -
  from assms have "(2::real) powr of_int (ulp_exponent x) * of_int m = \<bar>x\<bar>"
    by (simp add: field_simps)
  then have "sgn x * ((2::real) powr of_int (ulp_exponent x) * of_int m) = sgn x * \<bar>x\<bar>"
    by (simp only:)
  also have "\<dots> = x" by (rule mult_sgn_abs)
  finally show ?thesis using assms by (simp add: round_to_double_def)
qed

lemma ulp_exponent_bound:
  assumes "0 < y" "y < 2 powr of_int (k + 53)" "- 1074 \<le> k"
  shows "ulp_exponent y \<le> k"
proof -
  from assms have "log 2 y < of_int (k + 53)"
    by (simp add: log_less_iff)
  then have "\<lfloor>log 2 y\<rfloor> < k + 53" by (simp add: floor_less_iff)
  with assms show ?thesis by (simp add: ulp_exponent_def)
qed

lemma scaled_integer:
  assumes "j \<le> k"
  shows "(2::real) powr of_int k * of_int m / 2 powr of_int j = of_int (2 ^ nat (k - j) * m)"
proof -
  have "(2::real) powr of_int k / 2 powr of_int j = 2 powr of_int (k - j)"
    by (simp add: powr_diff)
  also have "real_of_int (k - j) = real (nat (k - j))"
    using assms by simp
  also have "(2::real) powr real (nat (k - j)) = 2 ^ nat (k - j)"
    by (simp add: powr_realpow)
  finally have "(2::real) powr of_int k / 2 powr of_int j = 2 ^ nat (k - j)" .
  then have "(2::real) powr of_int k / 2 powr of_int j * of_int m = 2 ^ nat (k - j) * of_int m"
    by (simp only:)
  then show ?thesis by simp
qed

lemma round_to_double_idem: "round_to_double (round_to_double x) = round_to_double x"
proof -
  have pos: "round_to_double (round_to_double x) = round_to_double x" if x: "0 < x" for x
  proof -
    let ?k = "ulp_exponent x"
    let ?m = "round_half_even (x / 2 powr of_int ?k)"
    let ?y = "round_to_double x"
    have y: "?y = 2 powr of_int ?k * of_int ?m" using x by (rule round_to_double_pos)
    have m0: "0 \<le> ?m" using x by (intro round_half_even_ge) simp
    have m53: "?m \<le> 2 ^ 53" using scaled_below [OF x] by (intro round_half_even_le) simp
    have k: "- 1074 \<le> ?k" by (simp add: ulp_exponent_def)
    show ?thesis
    proof (cases "?m = 0")
      case True
      with y show ?thesis by simp
    next
      case False
      with m0 have mpos: "0 < ?m" by simp
      then have ypos: "0 < ?y" unfolding y by simp
      show ?thesis
      proof (cases "?m = 2 ^ 53")
        case True
        then have y2: "?y = 2 powr of_int (?k + 53)" unfolding y by (simp add: powr_add)
        then have "\<lfloor>log 2 ?y\<rfloor> = ?k + 53" by simp
        with k have "ulp_exponent ?y = ?k + 1" using ypos by (simp add: ulp_exponent_def)
        moreover have "(2::real) powr of_int (?k + 53) / 2 powr of_int (?k + 1) = of_int (2 ^ 52)"
          by (simp add: powr_diff [symmetric])
        ultimately have "\<bar>?y\<bar> / 2 powr of_int (ulp_exponent ?y) = of_int (2 ^ 52)"
          using ypos y2 by simp
        then show ?thesis by (rule round_to_double_exact)
      next
        case False
        with m53 have "?m < 2 ^ 53" by simp
        then have "real_of_int ?m < 2 ^ 53" by (metis of_int_less_iff of_int_numeral of_int_power)
        then have "?y < 2 powr of_int ?k * 2 powr 53" unfolding y by simp
        then have "?y < 2 powr of_int (?k + 53)" by (simp add: powr_add)
        from ulp_exponent_bound [OF ypos this k] have "ulp_exponent ?y \<le> ?k" .
        from scaled_integer [OF this, of ?m]
        have "\<bar>?y\<bar> / 2 powr of_int (ulp_exponent ?y) = of_int (2 ^ nat (?k - ulp_exponent ?y) * ?m)"
          using ypos y by simp
        then show ?thesis by (rule round_to_double_exact)
      qed
    qed
  qed
  consider "0 < x" | "x = 0" | "x < 0" by linarith
  then show ?thesis
  proof cases
    case 1
    then show ?thesis by (rule pos)
  next
    case 2
    then show ?thesis by simp
  next
    case 3
    then have "0 < - x" by simp
    from pos [OF this] show ?thesis by (simp add: round_to_double_minus)
  qed
qed

lemma round_to_double_of_int:
  assumes "\<bar>n\<bar> < 2 ^ 53"
  shows "round_to_double (of_int n) = of_int n"
proof (cases "n = 0")
  case True
  then show ?thesis by simp
next
  case False
  let ?x = "real_of_int n"
  from False have pos: "0 < \<bar>?x\<bar>" by simp
  from assms have "\<bar>?x\<bar> < 2 ^ 53" by (metis of_int_abs of_int_less_iff of_int_numeral of_int_power)
  then have "\<bar>?x\<bar> < 2 powr of_int (0 + 53)" by simp
  from ulp_exponent_bound [OF pos this] have "ulp_exponent ?x \<le> 0" by simp
  from scaled_integer [OF this, of "\<bar>n\<bar>"]
  have "\<bar>?x\<bar> / 2 powr of_int (ulp_exponent ?x) = of_int (2 ^ nat (0 - ulp_exponent ?x) * \<bar>n\<bar>)"
    by simp
  then show ?thesis by (rule round_to_double_exact)
qed

lemma num_dbl: "num (dbl x) = round_to_double x"
  by (simp add: dbl_def Abs_double_inverse round_to_double_idem)

lemma round_num [simp]: "round_to_double (num d) = num d"
  using num [of d] by simp

lemma dbl_num [simp]: "dbl (num d) = d"
  by (simp add: dbl_def num_inverse)

lemma num_dbl_zero [simp]: "num (dbl 0) = 0"
  by (simp add: num_dbl)

lemma num_dbl_numeral:
  "(numeral k :: int) < 2 ^ 53 \<Longrightarrow> num (dbl (numeral k)) = numeral k"
  using round_to_double_of_int [of "numeral k"] by (simp add: num_dbl)

lemma round_to_double_numeral:
  "(numeral k :: int) < 2 ^ 53 \<Longrightarrow> round_to_double (numeral k) = numeral k"
  using round_to_double_of_int [of "numeral k"] by simp

lemma ulp_exponent_eq:
  assumes "2 powr of_int e \<le> \<bar>x\<bar>" "\<bar>x\<bar> < 2 powr of_int (e + 1)" "- 1022 \<le> e"
  shows "ulp_exponent x = e - 52"
proof -
  from assms(1) have "0 < \<bar>x\<bar>" by (smt (verit) powr_gt_zero)
  with assms(1,2) have "\<lfloor>log 2 \<bar>x\<bar>\<rfloor> = e"
    by (simp add: floor_log_eq_powr_iff)
  with assms(3) show ?thesis by (simp add: ulp_exponent_def)
qed

subsection \<open>The distance the scroll handler computes\<close>

lemma num_double_minus: "num (double_minus a b) = round_to_double (num a - num b)"
  by (simp add: double_minus_def num_dbl)

lemma num_double_abs: "num (double_abs a) = \<bar>num a\<bar>"
  by (simp add: double_abs_def num_dbl round_to_double_abs [symmetric])

lemma computed_delta: "num (double_abs (double_minus a b)) = \<bar>round_to_double (num a - num b)\<bar>"
  by (simp add: num_double_abs num_double_minus)

text \<open>
  Rounding is monotone and leaves the threshold, a double, as it is: a distance that
  reaches the threshold before rounding reaches it after.
\<close>

lemma computed_delta_ge:
  assumes "num t \<le> \<bar>num a - num b\<bar>"
  shows "num t \<le> num (double_abs (double_minus a b))"
proof -
  from assms have "round_to_double (num t) \<le> round_to_double \<bar>num a - num b\<bar>"
    by (rule round_to_double_mono)
  then show ?thesis by (simp add: computed_delta round_to_double_abs)
qed

text \<open>The doubles nearest to 0.1 and 10.1, and their difference as the code computes it.\<close>

lemma tenth: "round_to_double (1 / 10) = 3602879701896397 / 2 ^ 55"
proof -
  have "ulp_exponent (1 / 10) = - 4 - 52"
    by (rule ulp_exponent_eq) (simp_all add: powr_minus_divide)
  then show ?thesis
    by (simp add: round_to_double_def round_half_even_def Let_def powr_minus_divide)
qed

lemma ten_tenth: "round_to_double (101 / 10) = 5685794529555251 / 2 ^ 49"
proof -
  have "ulp_exponent (101 / 10) = 3 - 52"
    by (rule ulp_exponent_eq) (simp_all add: powr_minus_divide)
  then show ?thesis
    by (simp add: round_to_double_def round_half_even_def Let_def powr_minus_divide)
qed

lemma boundary: "round_to_double (5685794529555251 / 2 ^ 49 - 3602879701896397 / 2 ^ 55) = 10"
proof -
  have "ulp_exponent (5685794529555251 / 2 ^ 49 - 3602879701896397 / 2 ^ 55) = 3 - 52"
    by (rule ulp_exponent_eq) (simp_all add: powr_minus_divide)
  then show ?thesis
    by (simp add: round_to_double_def round_half_even_def Let_def powr_minus_divide)
qed

section \<open>What each operation leaves alone\<close>

text \<open>
  A write to the store changes one property of one element and nothing of the instance.
  The lemmas of this section are the simplification rules for reading a field after a
  write.
\<close>

lemmas dom_write_defs =
  set_transition_def set_opacity_def set_width_def classList_add_def classList_remove_def

lemma set_transition_frame [simp]:
  "config (set_transition e v s) = config s"
  "elements (set_transition e v s) = elements s"
  "dimensions (set_transition e v s) = dimensions s"
  "scrollState (set_transition e v s) = scrollState s"
  "scrollListener (set_transition e v s) = scrollListener s"
  "resizeListener (set_transition e v s) = resizeListener s"
  "loadListener (set_transition e v s) = loadListener s"
  "scrollY (set_transition e v s) = scrollY s"
  "readyState (set_transition e v s) = readyState s"
  "querySelector (set_transition e v s) = querySelector s"
  "console (set_transition e v s) = console s"
  by (simp_all add: set_transition_def)

lemma set_opacity_frame [simp]:
  "config (set_opacity e v s) = config s"
  "elements (set_opacity e v s) = elements s"
  "dimensions (set_opacity e v s) = dimensions s"
  "scrollState (set_opacity e v s) = scrollState s"
  "scrollListener (set_opacity e v s) = scrollListener s"
  "resizeListener (set_opacity e v s) = resizeListener s"
  "loadListener (set_opacity e v s) = loadListener s"
  "scrollY (set_opacity e v s) = scrollY s"
  "readyState (set_opacity e v s) = readyState s"
  "querySelector (set_opacity e v s) = querySelector s"
  "console (set_opacity e v s) = console s"
  by (simp_all add: set_opacity_def)

lemma set_width_frame [simp]:
  "config (set_width e v s) = config s"
  "elements (set_width e v s) = elements s"
  "dimensions (set_width e v s) = dimensions s"
  "scrollState (set_width e v s) = scrollState s"
  "scrollListener (set_width e v s) = scrollListener s"
  "resizeListener (set_width e v s) = resizeListener s"
  "loadListener (set_width e v s) = loadListener s"
  "scrollY (set_width e v s) = scrollY s"
  "readyState (set_width e v s) = readyState s"
  "querySelector (set_width e v s) = querySelector s"
  "console (set_width e v s) = console s"
  by (simp_all add: set_width_def)

lemma classList_add_frame [simp]:
  "config (classList_add e v s) = config s"
  "elements (classList_add e v s) = elements s"
  "dimensions (classList_add e v s) = dimensions s"
  "scrollState (classList_add e v s) = scrollState s"
  "scrollListener (classList_add e v s) = scrollListener s"
  "resizeListener (classList_add e v s) = resizeListener s"
  "loadListener (classList_add e v s) = loadListener s"
  "scrollY (classList_add e v s) = scrollY s"
  "readyState (classList_add e v s) = readyState s"
  "querySelector (classList_add e v s) = querySelector s"
  "console (classList_add e v s) = console s"
  by (simp_all add: classList_add_def)

lemma classList_remove_frame [simp]:
  "config (classList_remove e v s) = config s"
  "elements (classList_remove e v s) = elements s"
  "dimensions (classList_remove e v s) = dimensions s"
  "scrollState (classList_remove e v s) = scrollState s"
  "scrollListener (classList_remove e v s) = scrollListener s"
  "resizeListener (classList_remove e v s) = resizeListener s"
  "loadListener (classList_remove e v s) = loadListener s"
  "scrollY (classList_remove e v s) = scrollY s"
  "readyState (classList_remove e v s) = readyState s"
  "querySelector (classList_remove e v s) = querySelector s"
  "console (classList_remove e v s) = console s"
  by (simp_all add: classList_remove_def)

lemma set_transition_nodes [simp]:
  "classList (nodes (set_transition e v s) n) = classList (nodes s n)"
  "style_opacity (nodes (set_transition e v s) n) = style_opacity (nodes s n)"
  "style_width (nodes (set_transition e v s) n) = style_width (nodes s n)"
  "offsetWidth (nodes (set_transition e v s) n) = offsetWidth (nodes s n)"
  "parentElement (nodes (set_transition e v s) n) = parentElement (nodes s n)"
  "children (nodes (set_transition e v s) n) = children (nodes s n)"
  "style_transition (nodes (set_transition e v s) n) = (if n = e then v else style_transition (nodes s n))"
  by (simp_all add: set_transition_def)

lemma set_opacity_nodes [simp]:
  "classList (nodes (set_opacity e v s) n) = classList (nodes s n)"
  "style_transition (nodes (set_opacity e v s) n) = style_transition (nodes s n)"
  "style_width (nodes (set_opacity e v s) n) = style_width (nodes s n)"
  "offsetWidth (nodes (set_opacity e v s) n) = offsetWidth (nodes s n)"
  "parentElement (nodes (set_opacity e v s) n) = parentElement (nodes s n)"
  "children (nodes (set_opacity e v s) n) = children (nodes s n)"
  "style_opacity (nodes (set_opacity e v s) n) = (if n = e then v else style_opacity (nodes s n))"
  by (simp_all add: set_opacity_def)

lemma set_width_nodes [simp]:
  "classList (nodes (set_width e v s) n) = classList (nodes s n)"
  "style_transition (nodes (set_width e v s) n) = style_transition (nodes s n)"
  "style_opacity (nodes (set_width e v s) n) = style_opacity (nodes s n)"
  "offsetWidth (nodes (set_width e v s) n) = offsetWidth (nodes s n)"
  "parentElement (nodes (set_width e v s) n) = parentElement (nodes s n)"
  "children (nodes (set_width e v s) n) = children (nodes s n)"
  "style_width (nodes (set_width e v s) n) = (if n = e then v else style_width (nodes s n))"
  by (simp_all add: set_width_def)

lemma classList_add_nodes [simp]:
  "style_transition (nodes (classList_add e t s) n) = style_transition (nodes s n)"
  "style_opacity (nodes (classList_add e t s) n) = style_opacity (nodes s n)"
  "style_width (nodes (classList_add e t s) n) = style_width (nodes s n)"
  "offsetWidth (nodes (classList_add e t s) n) = offsetWidth (nodes s n)"
  "parentElement (nodes (classList_add e t s) n) = parentElement (nodes s n)"
  "children (nodes (classList_add e t s) n) = children (nodes s n)"
  "classList (nodes (classList_add e t s) n) =
     (if n = e then token_add t (classList (nodes s n)) else classList (nodes s n))"
  by (simp_all add: classList_add_def)

lemma classList_remove_nodes [simp]:
  "style_transition (nodes (classList_remove e t s) n) = style_transition (nodes s n)"
  "style_opacity (nodes (classList_remove e t s) n) = style_opacity (nodes s n)"
  "style_width (nodes (classList_remove e t s) n) = style_width (nodes s n)"
  "offsetWidth (nodes (classList_remove e t s) n) = offsetWidth (nodes s n)"
  "parentElement (nodes (classList_remove e t s) n) = parentElement (nodes s n)"
  "children (nodes (classList_remove e t s) n) = children (nodes s n)"
  "classList (nodes (classList_remove e t s) n) =
     (if n = e then token_remove t (classList (nodes s n)) else classList (nodes s n))"
  by (simp_all add: classList_remove_def)

lemma relayout_frame [simp]:
  "config (relayout f s) = config s"
  "elements (relayout f s) = elements s"
  "dimensions (relayout f s) = dimensions s"
  "scrollState (relayout f s) = scrollState s"
  "scrollListener (relayout f s) = scrollListener s"
  "resizeListener (relayout f s) = resizeListener s"
  "style_width (nodes (relayout f s) n) = style_width (nodes s n)"
  "offsetWidth (nodes (relayout f s) n) = f n"
  by (simp_all add: relayout_def)

lemma token_add_member [simp]: "t \<in> set (token_add t xs)"
  by (simp add: token_add_def)

lemma token_add_other [simp]: "u \<noteq> t \<Longrightarrow> u \<in> set (token_add t xs) \<longleftrightarrow> u \<in> set xs"
  by (simp add: token_add_def)

lemma token_remove_member [simp]: "u \<in> set (token_remove t xs) \<longleftrightarrow> u \<in> set xs \<and> u \<noteq> t"
  by (auto simp add: token_remove_def)

lemma px_zero: "px 0 = ''0px''"
  by (simp add: px_def digits.simps digit_char_def)

subsection \<open>The operations of the class\<close>

lemma setupTransitions_frame [simp]:
  "config (setupTransitions s) = config s"
  "elements (setupTransitions s) = elements s"
  "dimensions (setupTransitions s) = dimensions s"
  "scrollState (setupTransitions s) = scrollState s"
  "scrollListener (setupTransitions s) = scrollListener s"
  "resizeListener (setupTransitions s) = resizeListener s"
  "loadListener (setupTransitions s) = loadListener s"
  "scrollY (setupTransitions s) = scrollY s"
  "readyState (setupTransitions s) = readyState s"
  "querySelector (setupTransitions s) = querySelector s"
  "console (setupTransitions s) = console s"
  "classList (nodes (setupTransitions s) n) = classList (nodes s n)"
  "style_opacity (nodes (setupTransitions s) n) = style_opacity (nodes s n)"
  "style_width (nodes (setupTransitions s) n) = style_width (nodes s n)"
  "offsetWidth (nodes (setupTransitions s) n) = offsetWidth (nodes s n)"
  by (simp_all add: setupTransitions_def Let_def split: option.splits)

lemma setupTransitions_transition:
  "style_transition (nodes (setupTransitions s) n) =
     (if rightEmpty (elements s) = Some n \<or> leftEmpty (elements s) = Some n
      then ''width '' @ number_to_string (transitionDuration (config s)) @ ''ms ease-in-out''
      else if navbarItemsSection (elements s) = Some n
      then ''opacity '' @ number_to_string (transitionDuration (config s)) @ ''ms ease-in-out''
      else style_transition (nodes s n))"
  by (cases "rightEmpty (elements s)"; cases "leftEmpty (elements s)";
      cases "navbarItemsSection (elements s)")
    (simp_all add: setupTransitions_def Let_def)

lemma updateDimensions_frame [simp]:
  "config (updateDimensions s) = config s"
  "elements (updateDimensions s) = elements s"
  "scrollState (updateDimensions s) = scrollState s"
  "scrollListener (updateDimensions s) = scrollListener s"
  "resizeListener (updateDimensions s) = resizeListener s"
  "loadListener (updateDimensions s) = loadListener s"
  "scrollY (updateDimensions s) = scrollY s"
  "readyState (updateDimensions s) = readyState s"
  "querySelector (updateDimensions s) = querySelector s"
  "console (updateDimensions s) = console s"
  "classList (nodes (updateDimensions s) n) = classList (nodes s n)"
  "style_opacity (nodes (updateDimensions s) n) = style_opacity (nodes s n)"
  "style_transition (nodes (updateDimensions s) n) = style_transition (nodes s n)"
  "offsetWidth (nodes (updateDimensions s) n) = offsetWidth (nodes s n)"
  by (simp_all add: updateDimensions_def Let_def split: option.splits)

lemma updateDimensions_cache:
  "leftEmptyWidth (dimensions (updateDimensions s)) =
     (case leftEmpty (elements s) of
        Some l \<Rightarrow> Some (offsetWidth (nodes s l)) | None \<Rightarrow> leftEmptyWidth (dimensions s))"
  "rightEmptyWidth (dimensions (updateDimensions s)) =
     (case rightEmpty (elements s) of
        Some r \<Rightarrow> Some (offsetWidth (nodes s r)) | None \<Rightarrow> rightEmptyWidth (dimensions s))"
  by (cases "leftEmpty (elements s)"; cases "rightEmpty (elements s)";
      simp add: updateDimensions_def Let_def)+

lemma updateDimensions_width:
  "style_width (nodes (updateDimensions s) n) =
     (if rightEmpty (elements s) = Some n \<or> leftEmpty (elements s) = Some n
      then px (offsetWidth (nodes s n)) else style_width (nodes s n))"
  by (cases "leftEmpty (elements s)"; cases "rightEmpty (elements s)";
      simp add: updateDimensions_def Let_def)

lemma handleLoad_frame [simp]:
  "config (handleLoad s) = config s"
  "elements (handleLoad s) = elements s"
  "isInitialized (scrollState (handleLoad s)) = isInitialized (scrollState s)"
  "isScrollingUp (scrollState (handleLoad s)) = isScrollingUp (scrollState s)"
  "lastScrollY (scrollState (handleLoad s)) = scrollY s"
  "dimensions (handleLoad s) = dimensions (updateDimensions s)"
  "nodes (handleLoad s) = nodes (updateDimensions s)"
  by (simp_all add: handleLoad_def Let_def)

lemma bindEvents_frame [simp]:
  "elements (bindEvents s) = elements s"
  "scrollListener (bindEvents s)"
  "isInitialized (scrollState (bindEvents s)) = isInitialized (scrollState s)"
  "isScrollingUp (scrollState (bindEvents s)) = isScrollingUp (scrollState s)"
  "console (bindEvents s) = console s"
  "config (bindEvents s) = config s"
  by (simp_all add: bindEvents_def Let_def handleLoad_def)

lemma updateConfig_frame [simp]:
  "config (updateConfig p s) = spread (config s) p"
  "elements (updateConfig p s) = elements s"
  "dimensions (updateConfig p s) = dimensions s"
  "scrollState (updateConfig p s) = scrollState s"
  "classList (nodes (updateConfig p s) n) = classList (nodes s n)"
  "style_opacity (nodes (updateConfig p s) n) = style_opacity (nodes s n)"
  "style_width (nodes (updateConfig p s) n) = style_width (nodes s n)"
  by (simp_all add: updateConfig_def Let_def split: option.splits)

lemma updateConfig_without_duration:
  "opt_transitionDuration p = None \<Longrightarrow> updateConfig p s = s\<lparr>config := spread (config s) p\<rparr>"
  by (simp add: updateConfig_def Let_def)

lemma updateConfig_nonzero_duration:
  "opt_transitionDuration p = Some d \<Longrightarrow> d \<noteq> 0 \<Longrightarrow>
     updateConfig p s = setupTransitions (s\<lparr>config := spread (config s) p\<rparr>)"
  by (simp add: updateConfig_def Let_def)

lemma updateConfig_zero_duration:
  "opt_transitionDuration p = Some 0 \<Longrightarrow> updateConfig p s = s\<lparr>config := spread (config s) p\<rparr>"
  by (simp add: updateConfig_def Let_def)

lemma updateConfig_keeps_elements:
  "elements (updateConfig p s) = elements s \<and> dimensions (updateConfig p s) = dimensions s"
  by simp

lemma destroy_frame [simp]:
  "config (destroy s) = config s"
  "elements (destroy s) = elements s"
  "dimensions (destroy s) = dimensions s"
  "nodes (destroy s) = nodes s"
  "console (destroy s) = console s"
  "isInitialized (scrollState (destroy s)) = False"
  "lastScrollY (scrollState (destroy s)) = lastScrollY (scrollState s)"
  "isScrollingUp (scrollState (destroy s)) = isScrollingUp (scrollState s)"
  by (simp_all add: destroy_def Let_def)

section \<open>Showing and hiding\<close>

text \<open>
  With a container at hand \<open>showNavbar\<close> and \<open>hideNavbar\<close> return, and every
  property of every element afterwards is a function of the state before. The reads of
  \<^verbatim>\<open>this.elements\<close> and \<^verbatim>\<open>this.dimensions\<close> between the writes see the values
  from before the call, since the writes go to the store only.
\<close>

lemma case_option_same [simp]: "(case x of None \<Rightarrow> a | Some e \<Rightarrow> a) = a"
  by (cases x) simp_all

lemmas field_distrib =
  option.case_distrib [of config] if_distrib [of config]
  option.case_distrib [of elements] if_distrib [of elements]
  option.case_distrib [of dimensions] if_distrib [of dimensions]
  option.case_distrib [of scrollState] if_distrib [of scrollState]
  option.case_distrib [of scrollListener] if_distrib [of scrollListener]
  option.case_distrib [of resizeListener] if_distrib [of resizeListener]
  option.case_distrib [of loadListener] if_distrib [of loadListener]
  option.case_distrib [of scrollY] if_distrib [of scrollY]
  option.case_distrib [of readyState] if_distrib [of readyState]
  option.case_distrib [of querySelector] if_distrib [of querySelector]
  option.case_distrib [of console] if_distrib [of console]

lemmas node_distrib =
  option.case_distrib [of "\<lambda>s. classList (nodes s n)"] if_distrib [of "\<lambda>s. classList (nodes s n)"]
  option.case_distrib [of "\<lambda>s. style_opacity (nodes s n)"] if_distrib [of "\<lambda>s. style_opacity (nodes s n)"]
  option.case_distrib [of "\<lambda>s. style_width (nodes s n)"] if_distrib [of "\<lambda>s. style_width (nodes s n)"]
  option.case_distrib [of "\<lambda>s. style_transition (nodes s n)"] if_distrib [of "\<lambda>s. style_transition (nodes s n)"]
  option.case_distrib [of "\<lambda>s. offsetWidth (nodes s n)"] if_distrib [of "\<lambda>s. offsetWidth (nodes s n)"]
  for n

lemma showNavbar_needs_container: "showNavbar s = Inr s' \<Longrightarrow> container (elements s) \<noteq> None"
  by (cases "container (elements s)") (simp_all add: showNavbar_def)

lemma hideNavbar_needs_container: "hideNavbar s = Inr s' \<Longrightarrow> container (elements s) \<noteq> None"
  by (cases "container (elements s)") (simp_all add: hideNavbar_def)

lemma showNavbar_total:
  assumes "container (elements s) = Some c"
  shows "\<exists>s'. showNavbar s = Inr s'
     \<and> config s' = config s \<and> elements s' = elements s \<and> dimensions s' = dimensions s
     \<and> scrollState s' = scrollState s \<and> scrollListener s' = scrollListener s
     \<and> resizeListener s' = resizeListener s \<and> loadListener s' = loadListener s
     \<and> scrollY s' = scrollY s \<and> readyState s' = readyState s
     \<and> querySelector s' = querySelector s \<and> console s' = console s"
  using assms unfolding showNavbar_def
  by (simp add: Let_def field_distrib cong: option.case_cong if_cong)

lemma showNavbar_styles:
  assumes "container (elements s) = Some c"
  shows "\<exists>s'. showNavbar s = Inr s'
     \<and> (\<forall>n. classList (nodes s' n) =
          (if n = c then token_add ''scroll-up'' (token_remove ''scroll-down'' (classList (nodes s n)))
           else classList (nodes s n)))
     \<and> (\<forall>n. style_opacity (nodes s' n) =
          (if navbarItemsSection (elements s) = Some n then ''1'' else style_opacity (nodes s n)))
     \<and> (\<forall>n. style_transition (nodes s' n) = style_transition (nodes s n))
     \<and> (\<forall>n. offsetWidth (nodes s' n) = offsetWidth (nodes s n))"
  using assms unfolding showNavbar_def
  by (cases "navbarItemsSection (elements s)")
    (simp_all add: Let_def field_distrib node_distrib cong: option.case_cong if_cong)

lemma showNavbar_width:
  assumes "container (elements s) = Some c"
  shows "\<exists>s'. showNavbar s = Inr s'
     \<and> (\<forall>n. style_width (nodes s' n) =
          (if rightEmpty (elements s) = Some n \<and> truthy (rightEmptyWidth (dimensions s))
           then px (the (rightEmptyWidth (dimensions s)))
           else if leftEmpty (elements s) = Some n \<and> truthy (leftEmptyWidth (dimensions s))
           then px (the (leftEmptyWidth (dimensions s)))
           else style_width (nodes s n)))"
  using assms unfolding showNavbar_def
  by (cases "rightEmpty (elements s)"; cases "rightEmptyWidth (dimensions s)";
      cases "leftEmpty (elements s)"; cases "leftEmptyWidth (dimensions s)")
    (simp_all add: Let_def truthy_def field_distrib node_distrib cong: option.case_cong if_cong)

lemma hideNavbar_total:
  assumes "container (elements s) = Some c"
  shows "\<exists>s'. hideNavbar s = Inr s'
     \<and> config s' = config s \<and> elements s' = elements s \<and> dimensions s' = dimensions s
     \<and> scrollState s' = scrollState s \<and> scrollListener s' = scrollListener s
     \<and> resizeListener s' = resizeListener s \<and> loadListener s' = loadListener s
     \<and> scrollY s' = scrollY s \<and> readyState s' = readyState s
     \<and> querySelector s' = querySelector s \<and> console s' = console s"
  using assms unfolding hideNavbar_def
  by (simp add: Let_def field_distrib cong: option.case_cong if_cong)

lemma hideNavbar_styles:
  assumes "container (elements s) = Some c"
  shows "\<exists>s'. hideNavbar s = Inr s'
     \<and> (\<forall>n. classList (nodes s' n) =
          (if n = c then token_add ''scroll-down'' (token_remove ''scroll-up'' (classList (nodes s n)))
           else classList (nodes s n)))
     \<and> (\<forall>n. style_opacity (nodes s' n) =
          (if navbarItemsSection (elements s) = Some n then ''0'' else style_opacity (nodes s n)))
     \<and> (\<forall>n. style_transition (nodes s' n) = style_transition (nodes s n))
     \<and> (\<forall>n. offsetWidth (nodes s' n) = offsetWidth (nodes s n))"
  using assms unfolding hideNavbar_def
  by (cases "navbarItemsSection (elements s)")
    (simp_all add: Let_def field_distrib node_distrib cong: option.case_cong if_cong)

lemma hideNavbar_width:
  assumes "container (elements s) = Some c"
  shows "\<exists>s'. hideNavbar s = Inr s'
     \<and> (\<forall>n. style_width (nodes s' n) =
          (if rightEmpty (elements s) = Some n \<or> leftEmpty (elements s) = Some n
           then ''0px'' else style_width (nodes s n)))"
  using assms unfolding hideNavbar_def
  by (cases "rightEmpty (elements s)"; cases "leftEmpty (elements s)")
    (simp_all add: Let_def field_distrib node_distrib cong: option.case_cong if_cong)

lemma showNavbar_facts:
  assumes "showNavbar s = Inr s'"
  shows "config s' = config s" "elements s' = elements s" "dimensions s' = dimensions s"
    "scrollState s' = scrollState s" "scrollListener s' = scrollListener s"
    "resizeListener s' = resizeListener s" "loadListener s' = loadListener s"
    "scrollY s' = scrollY s" "readyState s' = readyState s"
    "querySelector s' = querySelector s" "console s' = console s"
    "classList (nodes s' n) =
       (if container (elements s) = Some n
        then token_add ''scroll-up'' (token_remove ''scroll-down'' (classList (nodes s n)))
        else classList (nodes s n))"
    "style_opacity (nodes s' n) =
       (if navbarItemsSection (elements s) = Some n then ''1'' else style_opacity (nodes s n))"
    "style_transition (nodes s' n) = style_transition (nodes s n)"
    "offsetWidth (nodes s' n) = offsetWidth (nodes s n)"
    "style_width (nodes s' n) =
       (if rightEmpty (elements s) = Some n \<and> truthy (rightEmptyWidth (dimensions s))
        then px (the (rightEmptyWidth (dimensions s)))
        else if leftEmpty (elements s) = Some n \<and> truthy (leftEmptyWidth (dimensions s))
        then px (the (leftEmptyWidth (dimensions s)))
        else style_width (nodes s n))"
proof -
  from assms obtain c where c: "container (elements s) = Some c"
    using showNavbar_needs_container by blast
  from showNavbar_total [OF c] assms
  show "config s' = config s" "elements s' = elements s" "dimensions s' = dimensions s"
    "scrollState s' = scrollState s" "scrollListener s' = scrollListener s"
    "resizeListener s' = resizeListener s" "loadListener s' = loadListener s"
    "scrollY s' = scrollY s" "readyState s' = readyState s"
    "querySelector s' = querySelector s" "console s' = console s"
    by auto
  from showNavbar_styles [OF c] assms c
  show "classList (nodes s' n) =
       (if container (elements s) = Some n
        then token_add ''scroll-up'' (token_remove ''scroll-down'' (classList (nodes s n)))
        else classList (nodes s n))"
    "style_opacity (nodes s' n) =
       (if navbarItemsSection (elements s) = Some n then ''1'' else style_opacity (nodes s n))"
    "style_transition (nodes s' n) = style_transition (nodes s n)"
    "offsetWidth (nodes s' n) = offsetWidth (nodes s n)"
    by auto
  from showNavbar_width [OF c] assms
  show "style_width (nodes s' n) =
       (if rightEmpty (elements s) = Some n \<and> truthy (rightEmptyWidth (dimensions s))
        then px (the (rightEmptyWidth (dimensions s)))
        else if leftEmpty (elements s) = Some n \<and> truthy (leftEmptyWidth (dimensions s))
        then px (the (leftEmptyWidth (dimensions s)))
        else style_width (nodes s n))"
    by auto
qed

lemma hideNavbar_facts:
  assumes "hideNavbar s = Inr s'"
  shows "config s' = config s" "elements s' = elements s" "dimensions s' = dimensions s"
    "scrollState s' = scrollState s" "scrollListener s' = scrollListener s"
    "resizeListener s' = resizeListener s" "loadListener s' = loadListener s"
    "scrollY s' = scrollY s" "readyState s' = readyState s"
    "querySelector s' = querySelector s" "console s' = console s"
    "classList (nodes s' n) =
       (if container (elements s) = Some n
        then token_add ''scroll-down'' (token_remove ''scroll-up'' (classList (nodes s n)))
        else classList (nodes s n))"
    "style_opacity (nodes s' n) =
       (if navbarItemsSection (elements s) = Some n then ''0'' else style_opacity (nodes s n))"
    "style_transition (nodes s' n) = style_transition (nodes s n)"
    "offsetWidth (nodes s' n) = offsetWidth (nodes s n)"
    "style_width (nodes s' n) =
       (if rightEmpty (elements s) = Some n \<or> leftEmpty (elements s) = Some n
        then ''0px'' else style_width (nodes s n))"
proof -
  from assms obtain c where c: "container (elements s) = Some c"
    using hideNavbar_needs_container by blast
  from hideNavbar_total [OF c] assms
  show "config s' = config s" "elements s' = elements s" "dimensions s' = dimensions s"
    "scrollState s' = scrollState s" "scrollListener s' = scrollListener s"
    "resizeListener s' = resizeListener s" "loadListener s' = loadListener s"
    "scrollY s' = scrollY s" "readyState s' = readyState s"
    "querySelector s' = querySelector s" "console s' = console s"
    by auto
  from hideNavbar_styles [OF c] assms c
  show "classList (nodes s' n) =
       (if container (elements s) = Some n
        then token_add ''scroll-down'' (token_remove ''scroll-up'' (classList (nodes s n)))
        else classList (nodes s n))"
    "style_opacity (nodes s' n) =
       (if navbarItemsSection (elements s) = Some n then ''0'' else style_opacity (nodes s n))"
    "style_transition (nodes s' n) = style_transition (nodes s n)"
    "offsetWidth (nodes s' n) = offsetWidth (nodes s n)"
    by auto
  from hideNavbar_width [OF c] assms
  show "style_width (nodes s' n) =
       (if rightEmpty (elements s) = Some n \<or> leftEmpty (elements s) = Some n
        then ''0px'' else style_width (nodes s n))"
    by auto
qed

lemma shown_width:
  assumes p: "pinned s" and sh: "showNavbar s = Inr s1"
  shows "(\<forall>l. leftEmpty (elements s) = Some l \<longrightarrow>
            (\<exists>w. leftEmptyWidth (dimensions s) = Some w \<and> style_width (nodes s1 l) = px w))
       \<and> (\<forall>r. rightEmpty (elements s) = Some r \<longrightarrow>
            (\<exists>w. rightEmptyWidth (dimensions s) = Some w \<and> style_width (nodes s1 r) = px w))"
  using p unfolding pinned_def showNavbar_facts [OF sh]
  by (auto simp add: truthy_def px_zero)

lemma hidden_width:
  assumes sh: "hideNavbar s = Inr s1"
  shows "(\<forall>l. leftEmpty (elements s) = Some l \<longrightarrow> style_width (nodes s1 l) = ''0px'')
       \<and> (\<forall>r. rightEmpty (elements s) = Some r \<longrightarrow> style_width (nodes s1 r) = ''0px'')"
  unfolding hideNavbar_facts [OF sh] by simp

subsection \<open>The scroll handler\<close>

lemma handleScroll_uninitialized:
  "\<not> isInitialized (scrollState s) \<Longrightarrow> handleScroll s = Inr s"
  by (simp add: handleScroll_def)

lemma handleScroll_computed:
  assumes "isInitialized (scrollState s)"
    and "\<not> num (double_abs (double_minus (scrollY s) (lastScrollY (scrollState s))))
           < num (scrollThreshold (config s))"
  shows "handleScroll s =
     (case (if num (scrollY s) < num (lastScrollY (scrollState s))
            then showNavbar s else hideNavbar s) of
        Inl err \<Rightarrow> Inl err
      | Inr s1 \<Rightarrow> Inr (s1\<lparr>scrollState := (scrollState s1)\<lparr>lastScrollY := scrollY s\<rparr>\<rparr>))"
  using assms by (simp add: handleScroll_def updateNavbarState_def Let_def)

lemma handleScroll_qualifying:
  assumes "isInitialized (scrollState s)"
    and "num (scrollThreshold (config s)) \<le> \<bar>num (scrollY s) - num (lastScrollY (scrollState s))\<bar>"
  shows "handleScroll s =
     (case (if num (scrollY s) < num (lastScrollY (scrollState s))
            then showNavbar s else hideNavbar s) of
        Inl err \<Rightarrow> Inl err
      | Inr s1 \<Rightarrow> Inr (s1\<lparr>scrollState := (scrollState s1)\<lparr>lastScrollY := scrollY s\<rparr>\<rparr>))"
proof -
  from computed_delta_ge [OF assms(2)]
  have "\<not> num (double_abs (double_minus (scrollY s) (lastScrollY (scrollState s))))
           < num (scrollThreshold (config s))"
    by simp
  with assms(1) show ?thesis by (rule handleScroll_computed)
qed

lemma handleScroll_result:
  assumes "handleScroll s = Inr s'"
  shows "s' = s
    \<or> (\<exists>s1. (showNavbar s = Inr s1 \<or> hideNavbar s = Inr s1)
          \<and> s' = s1\<lparr>scrollState := (scrollState s1)\<lparr>lastScrollY := scrollY s\<rparr>\<rparr>)"
  using assms
  by (auto simp add: handleScroll_def updateNavbarState_def Let_def split: if_splits sum.splits)

lemma handleScroll_frame:
  assumes "handleScroll s = Inr s'"
  shows "config s' = config s" "elements s' = elements s" "dimensions s' = dimensions s"
    "isInitialized (scrollState s') = isInitialized (scrollState s)"
    "isScrollingUp (scrollState s') = isScrollingUp (scrollState s)"
    "scrollListener s' = scrollListener s" "resizeListener s' = resizeListener s"
    "loadListener s' = loadListener s" "readyState s' = readyState s"
  using handleScroll_result [OF assms]
  by (auto simp add: showNavbar_facts hideNavbar_facts)

section \<open>The invariants hold in every state the controller reaches\<close>

lemma pinned_updateDimensions: "pinned (updateDimensions s)"
  by (auto simp add: pinned_def updateDimensions_cache updateDimensions_width)

lemma pinned_same_widths:
  assumes "elements s' = elements s" "dimensions s' = dimensions s"
    and "\<And>n. style_width (nodes s' n) = style_width (nodes s n)"
  shows "pinned s' = pinned s"
  using assms by (simp add: pinned_def)

lemma pinned_showNavbar:
  assumes "pinned s" "showNavbar s = Inr s'"
  shows "pinned s'"
  using assms(1) unfolding pinned_def showNavbar_facts [OF assms(2)]
  by (auto simp add: truthy_def px_zero)

lemma pinned_hideNavbar:
  assumes "pinned s" "hideNavbar s = Inr s'"
  shows "pinned s'"
  using assms(1) unfolding pinned_def hideNavbar_facts [OF assms(2)]
  by auto

lemma pinned_scrollState_update [simp]: "pinned (s\<lparr>scrollState := v\<rparr>) = pinned s"
  by (simp add: pinned_def)

lemma pinned_scrollY_update [simp]: "pinned (s\<lparr>scrollY := v\<rparr>) = pinned s"
  by (simp add: pinned_def)

lemma pinned_console_update [simp]: "pinned (s\<lparr>console := v\<rparr>) = pinned s"
  by (simp add: pinned_def)

lemma pinned_readyState_update [simp]: "pinned (s\<lparr>readyState := v\<rparr>) = pinned s"
  by (simp add: pinned_def)

lemma pinned_handleScroll:
  assumes "pinned s" "handleScroll s = Inr s'"
  shows "pinned s'"
  using handleScroll_result [OF assms(2)] assms(1)
  by (auto dest: pinned_showNavbar pinned_hideNavbar)

lemma pinned_relayout: "pinned (relayout f s) = pinned s"
  by (simp add: pinned_def relayout_def)

lemma pinned_handleLoad: "pinned (handleLoad s)"
  using pinned_updateDimensions [of s] by (simp add: handleLoad_def Let_def)

lemma pinned_updateConfig: "pinned (updateConfig p s) = pinned s"
  by (rule pinned_same_widths) simp_all

lemma pinned_destroy: "pinned (destroy s) = pinned s"
  by (simp add: pinned_def)

lemma pinned_dispatch: "pinned s \<Longrightarrow> pinned (dispatch ev s)"
proof (cases ev)
  case (Scroll y)
  assume p: "pinned s"
  then have "pinned (s\<lparr>scrollY := y\<rparr>)" by simp
  with Scroll pinned_handleScroll [of "s\<lparr>scrollY := y\<rparr>"] show ?thesis
    by (auto simp add: Let_def split: sum.splits)
next
  case (Resize f)
  assume "pinned s"
  with Resize show ?thesis
    by (simp add: Let_def handleResize_def pinned_updateDimensions pinned_relayout)
next
  case DOMContentLoaded
  assume "pinned s"
  with DOMContentLoaded show ?thesis
    by (simp add: Let_def pinned_handleLoad)
next
  case (UpdateConfig p)
  assume "pinned s"
  with UpdateConfig show ?thesis by (simp add: pinned_updateConfig)
next
  case Destroy
  assume "pinned s"
  with Destroy show ?thesis by (simp add: pinned_destroy)
qed

lemma ready_dispatch: "ready s \<Longrightarrow> ready (dispatch ev s)"
proof (cases ev)
  case (Scroll y)
  assume r: "ready s"
  show ?thesis
  proof (cases "handleScroll (s\<lparr>scrollY := y\<rparr>)")
    case (Inl err)
    with r Scroll show ?thesis by (auto simp add: ready_def Let_def)
  next
    case (Inr s2)
    from handleScroll_frame [OF Inr] r Scroll Inr show ?thesis
      by (auto simp add: ready_def Let_def)
  qed
next
  case (Resize f)
  assume "ready s"
  with Resize show ?thesis
    by (simp add: ready_def Let_def handleResize_def relayout_def)
next
  case DOMContentLoaded
  assume "ready s"
  with DOMContentLoaded show ?thesis
    by (simp add: ready_def Let_def handleLoad_def)
next
  case (UpdateConfig p)
  assume "ready s"
  with UpdateConfig show ?thesis
    by (simp add: ready_def updateConfig_def Let_def split: option.splits)
next
  case Destroy
  then show ?thesis by (simp add: ready_def)
qed

lemma run_invariants: "pinned s \<Longrightarrow> ready s \<Longrightarrow> pinned (run evs s) \<and> ready (run evs s)"
  by (induction evs arbitrary: s) (simp_all add: pinned_dispatch ready_dispatch)

subsection \<open>Construction\<close>

lemma cacheElements_found:
  assumes "querySelector s (containerSelector (config s)) = Inr c"
    and "querySelector s (ctaBtnContainerSelector (config s)) = Inr cta"
    and "querySelector s (logoContainerSelector (config s)) = Inr logo"
    and "querySelector s (navbarMainSectionSelector (config s)) = Inr main"
    and "querySelector s (navbarItemsSectionSelector (config s)) = Inr items"
  shows "cacheElements s =
     (let els = \<lparr>container = c, ctaBtnContainer = cta, logoContainer = logo,
                 navbarMainSection = main, navbarItemsSection = items,
                 leftEmpty = None, rightEmpty = None\<rparr>;
          s1 = s\<lparr>elements := els\<rparr>;
          missingElements = filter (\<lambda>key. element_at els key = None) requiredElements
      in if length missingElements > 0
         then Inl (Error (''Required elements not found: '' @ join '', '' missingElements), s1)
         else (case navbarMainSection els of
                 None \<Rightarrow> Inl (TypeError ''navbarMainSection is null'', s1)
               | Some m \<Rightarrow>
                  (case parentElement (nodes s1 m) of
                     None \<Rightarrow> Inl (TypeError ''parentElement is null'', s1)
                   | Some p \<Rightarrow>
                       (let parentChildren = children (nodes s1 p)
                        in Inr (s1\<lparr>elements := els\<lparr>leftEmpty := item parentChildren 0,
                                                    rightEmpty := item parentChildren 2\<rparr>\<rparr>)))))"
  using assms by (simp add: cacheElements_def)

lemma cacheElements_cases:
  obtains (throws) err where "cacheElements s = Inl (err, s)"
  | (found) c cta logo main items where
      "querySelector s (containerSelector (config s)) = Inr c"
      "querySelector s (ctaBtnContainerSelector (config s)) = Inr cta"
      "querySelector s (logoContainerSelector (config s)) = Inr logo"
      "querySelector s (navbarMainSectionSelector (config s)) = Inr main"
      "querySelector s (navbarItemsSectionSelector (config s)) = Inr items"
proof (cases "querySelector s (containerSelector (config s))")
  case (Inl e)
  then show ?thesis by (intro throws [of e]) (simp add: cacheElements_def)
next
  case c: (Inr c)
  show ?thesis
  proof (cases "querySelector s (ctaBtnContainerSelector (config s))")
    case (Inl e)
    with c show ?thesis by (intro throws [of e]) (simp add: cacheElements_def)
  next
    case cta: (Inr cta)
    show ?thesis
    proof (cases "querySelector s (logoContainerSelector (config s))")
      case (Inl e)
      with c cta show ?thesis by (intro throws [of e]) (simp add: cacheElements_def)
    next
      case logo: (Inr logo)
      show ?thesis
      proof (cases "querySelector s (navbarMainSectionSelector (config s))")
        case (Inl e)
        with c cta logo show ?thesis by (intro throws [of e]) (simp add: cacheElements_def)
      next
        case main: (Inr main)
        show ?thesis
        proof (cases "querySelector s (navbarItemsSectionSelector (config s))")
          case (Inl e)
          with c cta logo main show ?thesis
            by (intro throws [of e]) (simp add: cacheElements_def)
        next
          case (Inr items)
          with c cta logo main show ?thesis by (intro found)
        qed
      qed
    qed
  qed
qed

lemma cacheElements_throws:
  assumes "cacheElements s = Inl (err, s1)"
  shows "scrollState s1 = scrollState s" "console s1 = console s" "nodes s1 = nodes s"
    "dimensions s1 = dimensions s" "config s1 = config s"
    "leftEmpty (elements s1) = None \<or> elements s1 = elements s"
    "rightEmpty (elements s1) = None \<or> elements s1 = elements s"
proof -
  have "scrollState s1 = scrollState s \<and> console s1 = console s \<and> nodes s1 = nodes s
      \<and> dimensions s1 = dimensions s \<and> config s1 = config s
      \<and> (leftEmpty (elements s1) = None \<or> elements s1 = elements s)
      \<and> (rightEmpty (elements s1) = None \<or> elements s1 = elements s)"
  proof (cases s rule: cacheElements_cases)
    case (throws e)
    with assms show ?thesis by simp
  next
    case (found c cta logo main items)
    from assms show ?thesis unfolding cacheElements_found [OF found]
      by (auto simp add: Let_def split: if_splits option.splits)
  qed
  then show "scrollState s1 = scrollState s" "console s1 = console s" "nodes s1 = nodes s"
    "dimensions s1 = dimensions s" "config s1 = config s"
    "leftEmpty (elements s1) = None \<or> elements s1 = elements s"
    "rightEmpty (elements s1) = None \<or> elements s1 = elements s"
    by simp_all
qed

lemma cacheElements_returns:
  assumes "cacheElements s = Inr s1"
  shows "container (elements s1) \<noteq> None" "navbarMainSection (elements s1) \<noteq> None"
    "navbarItemsSection (elements s1) \<noteq> None"
    "scrollState s1 = scrollState s" "console s1 = console s" "nodes s1 = nodes s"
    "dimensions s1 = dimensions s" "config s1 = config s"
proof -
  have "container (elements s1) \<noteq> None \<and> navbarMainSection (elements s1) \<noteq> None
      \<and> navbarItemsSection (elements s1) \<noteq> None
      \<and> scrollState s1 = scrollState s \<and> console s1 = console s \<and> nodes s1 = nodes s
      \<and> dimensions s1 = dimensions s \<and> config s1 = config s"
  proof (cases s rule: cacheElements_cases)
    case (throws e)
    with assms show ?thesis by simp
  next
    case (found c cta logo main items)
    from assms show ?thesis unfolding cacheElements_found [OF found]
      by (auto simp add: Let_def element_at_def requiredElements_def
          split: if_splits option.splits)
  qed
  then show "container (elements s1) \<noteq> None" "navbarMainSection (elements s1) \<noteq> None"
    "navbarItemsSection (elements s1) \<noteq> None"
    "scrollState s1 = scrollState s" "console s1 = console s" "nodes s1 = nodes s"
    "dimensions s1 = dimensions s" "config s1 = config s"
    by simp_all
qed

lemma cacheElements_missing:
  assumes "querySelector s (containerSelector (config s)) = Inr c"
    and "querySelector s (ctaBtnContainerSelector (config s)) = Inr cta"
    and "querySelector s (logoContainerSelector (config s)) = Inr logo"
    and "querySelector s (navbarMainSectionSelector (config s)) = Inr main"
    and "querySelector s (navbarItemsSectionSelector (config s)) = Inr items"
    and "c = None \<or> main = None \<or> items = None"
  shows "\<exists>s1. cacheElements s =
       Inl (Error (''Required elements not found: '' @ join '', ''
              ((if c = None then [''container''] else [])
               @ (if main = None then [''navbarMainSection''] else [])
               @ (if items = None then [''navbarItemsSection''] else []))), s1)"
  using assms(6) unfolding cacheElements_found [OF assms(1-5)]
  by (auto simp add: Let_def element_at_def requiredElements_def)

lemma init_invariants:
  assumes "leftEmpty (elements s) = None" "rightEmpty (elements s) = None"
  shows "pinned (init s) \<and> (\<not> isInitialized (scrollState s) \<longrightarrow> ready (init s))"
proof (cases "cacheElements s")
  case (Inl a)
  then obtain err s1 where "cacheElements s = Inl (err, s1)" by (cases a) simp
  with cacheElements_throws [OF this] assms show ?thesis
    by (auto simp add: init_def pinned_def ready_def)
next
  case (Inr s1)
  with cacheElements_returns [OF Inr] pinned_updateDimensions show ?thesis
    by (simp add: init_def Let_def ready_def)
qed

lemma constructor_invariants: "pinned (constructor opts page) \<and> ready (constructor opts page)"
proof -
  let ?s0 = "page\<lparr>config := spread default_config opts, elements := no_elements,
      dimensions := no_dimensions,
      scrollState := \<lparr>lastScrollY = dbl 0, isScrollingUp = False, isInitialized = False\<rparr>,
      scrollListener := False, resizeListener := False, loadListener := False\<rparr>"
  have "leftEmpty (elements ?s0) = None" "rightEmpty (elements ?s0) = None"
    by (simp_all add: no_elements_def)
  from init_invariants [OF this] show ?thesis by (simp add: constructor_def)
qed

lemma reachable_invariants:
  "pinned (run evs (constructor opts page)) \<and> ready (run evs (constructor opts page))"
  using constructor_invariants run_invariants by blast

subsection \<open>An instance that is not initialized stays so\<close>

lemma dispatch_uninitialized:
  "\<not> isInitialized (scrollState s) \<Longrightarrow> \<not> isInitialized (scrollState (dispatch ev s))"
  by (cases ev)
    (simp_all add: handleScroll_uninitialized handleResize_def relayout_def Let_def)

lemma run_uninitialized:
  "\<not> isInitialized (scrollState s) \<Longrightarrow> \<not> isInitialized (scrollState (run evs s))"
  by (induction evs arbitrary: s) (simp_all add: dispatch_uninitialized)

lemma dispatch_scroll_uninitialized:
  "\<not> isInitialized (scrollState s) \<Longrightarrow> dispatch (Scroll y) s = s\<lparr>scrollY := y\<rparr>"
  by (simp add: handleScroll_uninitialized Let_def)

subsection \<open>The direction field is never assigned\<close>

lemma dispatch_isScrollingUp:
  "isScrollingUp (scrollState (dispatch ev s)) = isScrollingUp (scrollState s)"
proof (cases ev)
  case (Scroll y)
  show ?thesis
  proof (cases "handleScroll (s\<lparr>scrollY := y\<rparr>)")
    case (Inl err)
    with Scroll show ?thesis by (simp add: Let_def)
  next
    case (Inr s2)
    from handleScroll_frame [OF Inr] Scroll Inr show ?thesis by (simp add: Let_def)
  qed
next
  case (Resize f)
  then show ?thesis by (simp add: Let_def handleResize_def)
next
  case DOMContentLoaded
  then show ?thesis by (simp add: Let_def)
next
  case (UpdateConfig p)
  then show ?thesis by simp
next
  case Destroy
  then show ?thesis by simp
qed

lemma run_isScrollingUp:
  "isScrollingUp (scrollState (run evs s)) = isScrollingUp (scrollState s)"
  by (induction evs arbitrary: s) (simp_all add: dispatch_isScrollingUp)

lemma init_isScrollingUp:
  "isScrollingUp (scrollState (init s)) = isScrollingUp (scrollState s)"
proof (cases "cacheElements s")
  case (Inl a)
  then obtain err s1 where "cacheElements s = Inl (err, s1)" by (cases a) simp
  with cacheElements_throws [OF this] show ?thesis by (simp add: init_def)
next
  case (Inr s1)
  with cacheElements_returns [OF Inr] show ?thesis by (simp add: init_def Let_def)
qed

lemma direction_field_constant:
  "\<not> isScrollingUp (getScrollState (run evs (constructor opts page)))"
  by (simp add: getScrollState_def run_isScrollingUp constructor_def init_isScrollingUp)

section \<open>The controller on the README page, evaluated\<close>

lemmas readme_defs = readme_nav_def readme_page_def readme_query_def readme_nodes_def
  constructor_def init_def cacheElements_def bindEvents_def spread_def default_config_def
  no_options_def no_elements_def no_dimensions_def element_at_def requiredElements_def item_def

lemma default_threshold: "num (scrollThreshold default_config) = 10"
  by (simp add: default_config_def num_dbl_numeral)

lemma readme_nav_instance:
  "isInitialized (scrollState readme_nav)"
  "lastScrollY (scrollState readme_nav) = dbl 0"
  "scrollListener readme_nav"
  "loadListener readme_nav"
  "readyState readme_nav = Loading"
  "config readme_nav = default_config"
  "elements readme_nav =
     \<lparr>container = Some 0, ctaBtnContainer = Some 6, logoContainer = Some 4,
      navbarMainSection = Some 2, navbarItemsSection = Some 5,
      leftEmpty = Some 1, rightEmpty = Some 3\<rparr>"
  "console readme_nav = []"
  by (simp_all add: readme_defs Let_def)

lemma readme_nav_resize: "resizeListener readme_nav"
  by (simp add: readme_defs Let_def)

lemma readme_nav_dimensions:
  "dimensions readme_nav = \<lparr>leftEmptyWidth = Some 80, rightEmptyWidth = Some 60\<rparr>"
  by (simp add: readme_defs Let_def updateDimensions_def)

lemma px_80: "px 80 = ''80px''" and px_60: "px 60 = ''60px''"
  by (simp_all add: px_def digits.simps digit_char_def)

lemma readme_nav_styles:
  "style_width (nodes readme_nav 1) = ''80px''"
  "style_width (nodes readme_nav 3) = ''60px''"
  "style_transition (nodes readme_nav 5) = ''opacity 200ms ease-in-out''"
  "style_transition (nodes readme_nav 1) = ''width 200ms ease-in-out''"
  "classList (nodes readme_nav 0) = []"
  by (simp_all add: readme_defs Let_def updateDimensions_def setupTransitions_def
      set_width_def set_transition_def px_80 px_60 number_to_string_def digits.simps digit_char_def)

lemma readme_down_result:
  "\<exists>s1. hideNavbar (readme_nav\<lparr>scrollY := dbl 50\<rparr>) = Inr s1
     \<and> readme_down = s1\<lparr>scrollState := (scrollState s1)\<lparr>lastScrollY := dbl 50\<rparr>\<rparr>
     \<and> config s1 = config readme_nav \<and> elements s1 = elements readme_nav
     \<and> dimensions s1 = dimensions readme_nav \<and> scrollState s1 = scrollState readme_nav
     \<and> scrollListener s1 = scrollListener readme_nav"
proof -
  let ?t = "readme_nav\<lparr>scrollY := dbl 50\<rparr>"
  have "container (elements ?t) = Some 0" by (simp add: readme_nav_instance)
  from hideNavbar_total [OF this] obtain s1 where s1: "hideNavbar ?t = Inr s1"
    and fr: "config s1 = config ?t" "elements s1 = elements ?t" "dimensions s1 = dimensions ?t"
      "scrollState s1 = scrollState ?t" "scrollListener s1 = scrollListener ?t"
    by blast
  have "isInitialized (scrollState ?t)" by (simp add: readme_nav_instance)
  moreover have "num (scrollThreshold (config ?t))
      \<le> \<bar>num (scrollY ?t) - num (lastScrollY (scrollState ?t))\<bar>"
    by (simp add: readme_nav_instance default_threshold num_dbl_numeral)
  ultimately have "handleScroll ?t =
     (case (if num (scrollY ?t) < num (lastScrollY (scrollState ?t))
            then showNavbar ?t else hideNavbar ?t) of
        Inl err \<Rightarrow> Inl err
      | Inr s1 \<Rightarrow> Inr (s1\<lparr>scrollState := (scrollState s1)\<lparr>lastScrollY := scrollY ?t\<rparr>\<rparr>))"
    by (rule handleScroll_qualifying)
  with s1 have "handleScroll ?t = Inr (s1\<lparr>scrollState := (scrollState s1)\<lparr>lastScrollY := dbl 50\<rparr>\<rparr>)"
    by (simp add: readme_nav_instance num_dbl_numeral)
  then have "readme_down = s1\<lparr>scrollState := (scrollState s1)\<lparr>lastScrollY := dbl 50\<rparr>\<rparr>"
    by (simp add: readme_down_def Let_def readme_nav_instance)
  with s1 fr show ?thesis by simp
qed

lemma readme_down_instance:
  "isInitialized (scrollState readme_down)"
  "lastScrollY (scrollState readme_down) = dbl 50"
  "config readme_down = default_config"
  "elements readme_down = elements readme_nav"
  "dimensions readme_down = dimensions readme_nav"
  "scrollListener readme_down"
proof -
  from readme_down_result obtain s1
    where r: "readme_down = s1\<lparr>scrollState := (scrollState s1)\<lparr>lastScrollY := dbl 50\<rparr>\<rparr>"
      and fr: "config s1 = config readme_nav" "elements s1 = elements readme_nav"
        "dimensions s1 = dimensions readme_nav" "scrollState s1 = scrollState readme_nav"
        "scrollListener s1 = scrollListener readme_nav"
    by blast
  show "isInitialized (scrollState readme_down)"
    "lastScrollY (scrollState readme_down) = dbl 50"
    "config readme_down = default_config"
    "elements readme_down = elements readme_nav"
    "dimensions readme_down = dimensions readme_nav"
    "scrollListener readme_down"
    unfolding r using fr by (simp_all add: readme_nav_instance)
qed

lemma readme_flat_instance:
  "elements readme_flat = elements readme_nav"
  "dimensions readme_flat = \<lparr>leftEmptyWidth = Some 80, rightEmptyWidth = Some 0\<rparr>"
  "style_width (nodes readme_flat 1) = ''80px''"
  "style_width (nodes readme_flat 3) = ''0px''"
proof -
  let ?f = "\<lambda>e::nat. if e = 1 then 80 else (0::nat)"
  have r: "readme_flat = updateDimensions (relayout ?f readme_nav)"
    by (simp add: readme_flat_def Let_def handleResize_def readme_nav_resize)
  show "elements readme_flat = elements readme_nav" unfolding r by simp
  have "leftEmptyWidth (dimensions readme_flat) = Some 80"
    "rightEmptyWidth (dimensions readme_flat) = Some 0"
    unfolding r by (simp_all add: updateDimensions_cache readme_nav_instance)
  then show "dimensions readme_flat = \<lparr>leftEmptyWidth = Some 80, rightEmptyWidth = Some 0\<rparr>"
    by (cases "dimensions readme_flat") simp
  show "style_width (nodes readme_flat 1) = ''80px''" "style_width (nodes readme_flat 3) = ''0px''"
    unfolding r by (simp_all add: updateDimensions_width readme_nav_instance px_80 px_zero)
qed

subsection \<open>The page loaded at offset 0.1\<close>

lemma offset_constructed:
  "isInitialized (scrollState (constructor no_options offset_page))"
  "scrollListener (constructor no_options offset_page)"
  "loadListener (constructor no_options offset_page)"
  "readyState (constructor no_options offset_page) = Loading"
  "scrollY (constructor no_options offset_page) = dbl (1 / 10)"
  "config (constructor no_options offset_page) = default_config"
  "elements (constructor no_options offset_page) = elements readme_nav"
  by (simp_all add: offset_page_def readme_defs Let_def)

lemma handleLoad_listeners [simp]:
  "scrollListener (handleLoad s) = scrollListener s"
  "readyState (handleLoad s) = readyState s"
  "style_opacity (nodes (handleLoad s) n) = style_opacity (nodes s n)"
  "classList (nodes (handleLoad s) n) = classList (nodes s n)"
  by (simp_all add: handleLoad_def Let_def)

lemma offset_nav_instance:
  "isInitialized (scrollState offset_nav)"
  "scrollListener offset_nav"
  "lastScrollY (scrollState offset_nav) = dbl (1 / 10)"
  "config offset_nav = default_config"
  "elements offset_nav = elements readme_nav"
proof -
  let ?c = "constructor no_options offset_page"
  have r: "offset_nav = handleLoad (?c\<lparr>readyState := Interactive\<rparr>)"
    by (simp add: offset_nav_def offset_constructed Let_def)
  show "isInitialized (scrollState offset_nav)"
    "scrollListener offset_nav"
    "lastScrollY (scrollState offset_nav) = dbl (1 / 10)"
    "config offset_nav = default_config"
    "elements offset_nav = elements readme_nav"
    unfolding r by (simp_all add: offset_constructed)
qed

text \<open>
  From 0.1 to 10.1 the exact distance stays below 10, and the distance the handler
  computes is 10.
\<close>

lemma offset_exact_distance: "\<bar>num (dbl (101 / 10)) - num (dbl (1 / 10))\<bar> < 10"
  by (simp add: num_dbl tenth ten_tenth)

lemma offset_computed_distance:
  "num (double_abs (double_minus (dbl (101 / 10)) (dbl (1 / 10)))) = 10"
proof -
  have "num (double_abs (double_minus (dbl (101 / 10)) (dbl (1 / 10))))
      = \<bar>round_to_double (5685794529555251 / 2 ^ 49 - 3602879701896397 / 2 ^ 55)\<bar>"
    by (simp only: computed_delta num_dbl tenth ten_tenth)
  also have "\<dots> = 10" unfolding boundary by simp
  finally show ?thesis .
qed

section \<open>Scroll events\<close>

text \<open>
  Claim C1. After a successful initialization, a scroll event that moves at least the threshold
  away from the last recorded offset and toward the page top shows the navbar. The
  state \<open>s\<close> is any state the controller reaches from its constructor by scroll,
  resize and load events, reconfiguration and teardown, and is still initialized. The
  handler returns without an exception; afterwards the container has the class
  \<^verbatim>\<open>scroll-up\<close> and not \<^verbatim>\<open>scroll-down\<close>, the items section has opacity
  \<^verbatim>\<open>1\<close>, and the inline width of each spacer the instance holds is its cached
  measured width. In such a state every spacer held has a cached measurement, so the
  case of a missing measurement, where \<open>showNavbar\<close> leaves the width alone, does not
  arise here; the last section treats it.
\<close>
theorem scroll_up_shows_navbar:
  assumes reach: "s = run evs (constructor opts page)"
    and init: "isInitialized (scrollState s)"
    and delta: "num (scrollThreshold (config s)) \<le> \<bar>num y - num (lastScrollY (scrollState s))\<bar>"
    and up: "num y < num (lastScrollY (scrollState s))"
  shows "\<exists>c i s'. container (elements s) = Some c \<and> navbarItemsSection (elements s) = Some i
     \<and> handleScroll (s\<lparr>scrollY := y\<rparr>) = Inr s' \<and> dispatch (Scroll y) s = s'
     \<and> ''scroll-down'' \<notin> set (classList (nodes s' c))
     \<and> ''scroll-up'' \<in> set (classList (nodes s' c))
     \<and> style_opacity (nodes s' i) = ''1''
     \<and> (\<forall>l. leftEmpty (elements s) = Some l \<longrightarrow>
          (\<exists>w. leftEmptyWidth (dimensions s) = Some w \<and> style_width (nodes s' l) = px w))
     \<and> (\<forall>r. rightEmpty (elements s) = Some r \<longrightarrow>
          (\<exists>w. rightEmptyWidth (dimensions s) = Some w \<and> style_width (nodes s' r) = px w))"
proof -
  let ?t = "s\<lparr>scrollY := y\<rparr>"
  from reach reachable_invariants have inv: "pinned s" "ready s" by simp_all
  from inv(2) init obtain c i where c: "container (elements s) = Some c"
    and i: "navbarItemsSection (elements s) = Some i" and reg: "scrollListener s"
    by (auto simp add: ready_def)
  from c have "container (elements ?t) = Some c" by simp
  from showNavbar_total [OF this] obtain s1 where s1: "showNavbar ?t = Inr s1" by blast
  let ?s' = "s1\<lparr>scrollState := (scrollState s1)\<lparr>lastScrollY := y\<rparr>\<rparr>"
  from init delta up s1 have hs: "handleScroll ?t = Inr ?s'"
    by (simp add: handleScroll_qualifying)
  with reg have d: "dispatch (Scroll y) s = ?s'" by (simp add: Let_def)
  from inv(1) have "pinned ?t" by simp
  from shown_width [OF this s1] have w:
    "(\<forall>l. leftEmpty (elements s) = Some l \<longrightarrow>
        (\<exists>w. leftEmptyWidth (dimensions s) = Some w \<and> style_width (nodes ?s' l) = px w))
     \<and> (\<forall>r. rightEmpty (elements s) = Some r \<longrightarrow>
        (\<exists>w. rightEmptyWidth (dimensions s) = Some w \<and> style_width (nodes ?s' r) = px w))"
    by simp
  have cl: "''scroll-down'' \<notin> set (classList (nodes ?s' c))" "''scroll-up'' \<in> set (classList (nodes ?s' c))"
    using c by (simp_all add: showNavbar_facts [OF s1])
  have op: "style_opacity (nodes ?s' i) = ''1''"
    using i by (simp add: showNavbar_facts [OF s1])
  from c i hs d cl op w show ?thesis by blast
qed

theorem scroll_up_shows_navbar_witness:
  "isInitialized (scrollState readme_down)
   \<and> num (scrollThreshold (config readme_down))
       \<le> \<bar>num (dbl 5) - num (lastScrollY (scrollState readme_down))\<bar>
   \<and> num (dbl 5) < num (lastScrollY (scrollState readme_down))
   \<and> ''scroll-down'' \<notin> set (classList (nodes (dispatch (Scroll (dbl 5)) readme_down) 0))
   \<and> ''scroll-up'' \<in> set (classList (nodes (dispatch (Scroll (dbl 5)) readme_down) 0))
   \<and> style_opacity (nodes (dispatch (Scroll (dbl 5)) readme_down) 5) = ''1''
   \<and> style_width (nodes (dispatch (Scroll (dbl 5)) readme_down) 1) = ''80px''
   \<and> style_width (nodes (dispatch (Scroll (dbl 5)) readme_down) 3) = ''60px''"
proof -
  have h1: "readme_down = run [Scroll (dbl 50)] (constructor no_options readme_page)"
    by (simp only: readme_down_def readme_nav_def)
  have h2: "isInitialized (scrollState readme_down)" by (rule readme_down_instance)
  have h3: "num (scrollThreshold (config readme_down))
      \<le> \<bar>num (dbl 5) - num (lastScrollY (scrollState readme_down))\<bar>"
    by (simp add: readme_down_instance default_threshold num_dbl_numeral)
  have h4: "num (dbl 5) < num (lastScrollY (scrollState readme_down))"
    by (simp add: readme_down_instance num_dbl_numeral)
  from scroll_up_shows_navbar [OF h1 h2 h3 h4] obtain c i s'
    where c: "container (elements readme_down) = Some c"
      and i: "navbarItemsSection (elements readme_down) = Some i"
      and d: "dispatch (Scroll (dbl 5)) readme_down = s'"
      and cl: "''scroll-down'' \<notin> set (classList (nodes s' c))"
        "''scroll-up'' \<in> set (classList (nodes s' c))"
      and op: "style_opacity (nodes s' i) = ''1''"
      and l: "\<forall>l. leftEmpty (elements readme_down) = Some l \<longrightarrow>
          (\<exists>w. leftEmptyWidth (dimensions readme_down) = Some w \<and> style_width (nodes s' l) = px w)"
      and r: "\<forall>r. rightEmpty (elements readme_down) = Some r \<longrightarrow>
          (\<exists>w. rightEmptyWidth (dimensions readme_down) = Some w \<and> style_width (nodes s' r) = px w)"
    by blast
  from c i have ci: "c = 0" "i = 5"
    by (simp_all add: readme_down_instance readme_nav_instance)
  from l have "style_width (nodes s' 1) = ''80px''"
    by (simp add: readme_down_instance readme_nav_instance readme_nav_dimensions px_80)
  moreover from r have "style_width (nodes s' 3) = ''60px''"
    by (simp add: readme_down_instance readme_nav_instance readme_nav_dimensions px_60)
  ultimately show ?thesis
    unfolding d using h2 h3 h4 cl op ci by simp
qed

text \<open>
  Claim C2. After a successful initialization, a scroll event that moves at least the threshold
  away from the last recorded offset and not toward the page top
  (\<^verbatim>\<open>currentY >= lastY\<close>) hides the navbar: the container has the class
  \<^verbatim>\<open>scroll-down\<close> and not \<^verbatim>\<open>scroll-up\<close>, the items section has opacity
  \<^verbatim>\<open>0\<close>, and each spacer the instance holds has the inline width \<^verbatim>\<open>0px\<close>.
\<close>
theorem scroll_down_hides_navbar:
  assumes reach: "s = run evs (constructor opts page)"
    and init: "isInitialized (scrollState s)"
    and delta: "num (scrollThreshold (config s)) \<le> \<bar>num y - num (lastScrollY (scrollState s))\<bar>"
    and down: "num (lastScrollY (scrollState s)) \<le> num y"
  shows "\<exists>c i s'. container (elements s) = Some c \<and> navbarItemsSection (elements s) = Some i
     \<and> handleScroll (s\<lparr>scrollY := y\<rparr>) = Inr s' \<and> dispatch (Scroll y) s = s'
     \<and> ''scroll-up'' \<notin> set (classList (nodes s' c))
     \<and> ''scroll-down'' \<in> set (classList (nodes s' c))
     \<and> style_opacity (nodes s' i) = ''0''
     \<and> (\<forall>l. leftEmpty (elements s) = Some l \<longrightarrow> style_width (nodes s' l) = ''0px'')
     \<and> (\<forall>r. rightEmpty (elements s) = Some r \<longrightarrow> style_width (nodes s' r) = ''0px'')"
proof -
  let ?t = "s\<lparr>scrollY := y\<rparr>"
  from reach reachable_invariants have inv: "ready s" by simp
  from inv init obtain c i where c: "container (elements s) = Some c"
    and i: "navbarItemsSection (elements s) = Some i" and reg: "scrollListener s"
    by (auto simp add: ready_def)
  from c have "container (elements ?t) = Some c" by simp
  from hideNavbar_total [OF this] obtain s1 where s1: "hideNavbar ?t = Inr s1" by blast
  let ?s' = "s1\<lparr>scrollState := (scrollState s1)\<lparr>lastScrollY := y\<rparr>\<rparr>"
  from init delta down s1 have hs: "handleScroll ?t = Inr ?s'"
    by (simp add: handleScroll_qualifying)
  with reg have d: "dispatch (Scroll y) s = ?s'" by (simp add: Let_def)
  from hidden_width [OF s1] have w:
    "(\<forall>l. leftEmpty (elements s) = Some l \<longrightarrow> style_width (nodes ?s' l) = ''0px'')
     \<and> (\<forall>r. rightEmpty (elements s) = Some r \<longrightarrow> style_width (nodes ?s' r) = ''0px'')"
    by simp
  have cl: "''scroll-up'' \<notin> set (classList (nodes ?s' c))" "''scroll-down'' \<in> set (classList (nodes ?s' c))"
    using c by (simp_all add: hideNavbar_facts [OF s1])
  have op: "style_opacity (nodes ?s' i) = ''0''"
    using i by (simp add: hideNavbar_facts [OF s1])
  from c i hs d cl op w show ?thesis by blast
qed

theorem scroll_down_hides_navbar_witness:
  "isInitialized (scrollState readme_nav)
   \<and> num (scrollThreshold (config readme_nav))
       \<le> \<bar>num (dbl 50) - num (lastScrollY (scrollState readme_nav))\<bar>
   \<and> num (lastScrollY (scrollState readme_nav)) \<le> num (dbl 50)
   \<and> ''scroll-up'' \<notin> set (classList (nodes (dispatch (Scroll (dbl 50)) readme_nav) 0))
   \<and> ''scroll-down'' \<in> set (classList (nodes (dispatch (Scroll (dbl 50)) readme_nav) 0))
   \<and> style_opacity (nodes (dispatch (Scroll (dbl 50)) readme_nav) 5) = ''0''
   \<and> style_width (nodes (dispatch (Scroll (dbl 50)) readme_nav) 1) = ''0px''
   \<and> style_width (nodes (dispatch (Scroll (dbl 50)) readme_nav) 3) = ''0px''"
proof -
  have h1: "readme_nav = run [] (constructor no_options readme_page)"
    by (simp add: readme_nav_def)
  have h2: "isInitialized (scrollState readme_nav)" by (rule readme_nav_instance)
  have h3: "num (scrollThreshold (config readme_nav))
      \<le> \<bar>num (dbl 50) - num (lastScrollY (scrollState readme_nav))\<bar>"
    by (simp add: readme_nav_instance default_threshold num_dbl_numeral)
  have h4: "num (lastScrollY (scrollState readme_nav)) \<le> num (dbl 50)"
    by (simp add: readme_nav_instance num_dbl_numeral)
  from scroll_down_hides_navbar [OF h1 h2 h3 h4] obtain c i s'
    where c: "container (elements readme_nav) = Some c"
      and i: "navbarItemsSection (elements readme_nav) = Some i"
      and d: "dispatch (Scroll (dbl 50)) readme_nav = s'"
      and cl: "''scroll-up'' \<notin> set (classList (nodes s' c))"
        "''scroll-down'' \<in> set (classList (nodes s' c))"
      and op: "style_opacity (nodes s' i) = ''0''"
      and l: "\<forall>l. leftEmpty (elements readme_nav) = Some l \<longrightarrow> style_width (nodes s' l) = ''0px''"
      and r: "\<forall>r. rightEmpty (elements readme_nav) = Some r \<longrightarrow> style_width (nodes s' r) = ''0px''"
    by blast
  from c i have ci: "c = 0" "i = 5" by (simp_all add: readme_nav_instance)
  from l have "style_width (nodes s' 1) = ''0px''" by (simp add: readme_nav_instance)
  moreover from r have "style_width (nodes s' 3) = ''0px''" by (simp add: readme_nav_instance)
  ultimately show ?thesis
    unfolding d using h2 h3 h4 cl op ci by simp
qed

text \<open>
  Claim C3, as amended. A scroll event whose distance from the last recorded offset, as
  the handler computes it (the absolute value of the double-precision difference), is
  below the threshold changes nothing: the handler returns the state it was given, so
  no class, no style and no field of the scroll state differs; of the whole state only
  \<^verbatim>\<open>window.scrollY\<close> has moved, and that is the browser's doing.
\<close>
theorem scroll_below_threshold_changes_nothing:
  assumes "num (double_abs (double_minus y (lastScrollY (scrollState s))))
           < num (scrollThreshold (config s))"
  shows "handleScroll (s\<lparr>scrollY := y\<rparr>) = Inr (s\<lparr>scrollY := y\<rparr>)
       \<and> dispatch (Scroll y) s = s\<lparr>scrollY := y\<rparr>"
  using assms by (simp add: handleScroll_def Let_def)

theorem scroll_below_threshold_witness:
  "num (double_abs (double_minus (dbl 3) (lastScrollY (scrollState readme_nav))))
     < num (scrollThreshold (config readme_nav))
   \<and> handleScroll (readme_nav\<lparr>scrollY := dbl 3\<rparr>) = Inr (readme_nav\<lparr>scrollY := dbl 3\<rparr>)
   \<and> dispatch (Scroll (dbl 3)) readme_nav = readme_nav\<lparr>scrollY := dbl 3\<rparr>"
proof -
  have h: "num (double_abs (double_minus (dbl 3) (lastScrollY (scrollState readme_nav))))
     < num (scrollThreshold (config readme_nav))"
    by (simp add: readme_nav_instance default_threshold computed_delta num_dbl_numeral
        round_to_double_numeral)
  from scroll_below_threshold_changes_nothing [OF h] h show ?thesis by (simp only: simp_thms)
qed

text \<open>
  With the distance taken exactly the statement fails. The page was loaded at offset
  0.1 and is scrolled to 10.1: the two doubles are less than 10 apart, their
  double-precision difference is 10, and the handler hides the navbar and records the
  new offset.
\<close>

theorem scroll_below_threshold_counterexample:
  "\<bar>num (dbl (101 / 10)) - num (lastScrollY (scrollState offset_nav))\<bar>
     < num (scrollThreshold (config offset_nav))
   \<and> handleScroll (offset_nav\<lparr>scrollY := dbl (101 / 10)\<rparr>)
       \<noteq> Inr (offset_nav\<lparr>scrollY := dbl (101 / 10)\<rparr>)
   \<and> lastScrollY (scrollState offset_nav) = dbl (1 / 10)
   \<and> lastScrollY (scrollState (dispatch (Scroll (dbl (101 / 10))) offset_nav)) = dbl (101 / 10)
   \<and> dbl (1 / 10) \<noteq> dbl (101 / 10)
   \<and> ''scroll-down'' \<notin> set (classList (nodes offset_nav 0))
   \<and> ''scroll-down'' \<in> set (classList (nodes (dispatch (Scroll (dbl (101 / 10))) offset_nav) 0))"
proof -
  let ?y = "dbl (101 / 10)"
  let ?t = "offset_nav\<lparr>scrollY := ?y\<rparr>"
  have a: "\<bar>num ?y - num (lastScrollY (scrollState offset_nav))\<bar>
      < num (scrollThreshold (config offset_nav))"
    using offset_exact_distance by (simp add: offset_nav_instance default_threshold)
  have ne: "dbl (1 / 10) \<noteq> ?y"
  proof
    assume "dbl (1 / 10) = ?y"
    then have "num (dbl (1 / 10)) = num ?y" by simp
    then show False by (simp add: num_dbl tenth ten_tenth)
  qed
  have c: "container (elements ?t) = Some 0"
    by (simp add: offset_nav_instance readme_nav_instance)
  from hideNavbar_total [OF c] obtain s1 where s1: "hideNavbar ?t = Inr s1" by blast
  have "isInitialized (scrollState ?t)" by (simp add: offset_nav_instance)
  moreover have "\<not> num (double_abs (double_minus (scrollY ?t) (lastScrollY (scrollState ?t))))
           < num (scrollThreshold (config ?t))"
    by (simp add: offset_nav_instance default_threshold offset_computed_distance)
  ultimately have "handleScroll ?t =
     (case (if num (scrollY ?t) < num (lastScrollY (scrollState ?t))
            then showNavbar ?t else hideNavbar ?t) of
        Inl err \<Rightarrow> Inl err
      | Inr s1 \<Rightarrow> Inr (s1\<lparr>scrollState := (scrollState s1)\<lparr>lastScrollY := scrollY ?t\<rparr>\<rparr>))"
    by (rule handleScroll_computed)
  with s1 have hs: "handleScroll ?t = Inr (s1\<lparr>scrollState := (scrollState s1)\<lparr>lastScrollY := ?y\<rparr>\<rparr>)"
    by (simp add: offset_nav_instance num_dbl tenth ten_tenth)
  then have d: "dispatch (Scroll ?y) offset_nav
      = s1\<lparr>scrollState := (scrollState s1)\<lparr>lastScrollY := ?y\<rparr>\<rparr>"
    by (simp add: Let_def offset_nav_instance)
  have b: "handleScroll ?t \<noteq> Inr ?t"
  proof
    assume "handleScroll ?t = Inr ?t"
    with hs have "s1\<lparr>scrollState := (scrollState s1)\<lparr>lastScrollY := ?y\<rparr>\<rparr> = ?t" by simp
    then have "lastScrollY (scrollState (s1\<lparr>scrollState := (scrollState s1)\<lparr>lastScrollY := ?y\<rparr>\<rparr>))
        = lastScrollY (scrollState ?t)"
      by (simp only:)
    with ne show False by (simp add: offset_nav_instance)
  qed
  have l: "lastScrollY (scrollState (dispatch (Scroll ?y) offset_nav)) = ?y"
    unfolding d by simp
  have before: "''scroll-down'' \<notin> set (classList (nodes offset_nav 0))"
    by (simp add: offset_nav_def offset_constructed Let_def)
      (simp add: offset_page_def readme_defs Let_def)
  have after: "''scroll-down'' \<in> set (classList (nodes (dispatch (Scroll ?y) offset_nav) 0))"
    unfolding d using c by (simp add: hideNavbar_facts [OF s1])
  from a b l ne before after show ?thesis by (simp add: offset_nav_instance)
qed

text \<open>
  Claim C5. The claim has the direction field of the scroll state follow the last qualifying
  scroll. The handler computes the direction in a local constant and never stores it:
  on the README page, after a scroll down to 50 and a scroll up to 5 (45 pixels, above
  the threshold of 10), the navbar is shown and \<^verbatim>\<open>lastScrollY\<close> is 5, yet the
  snapshot of \<open>getScrollState\<close> still reports \<^verbatim>\<open>isScrollingUp\<close> as false. The
  lemma \<open>direction_field_constant\<close> shows the field false in every reachable state.
\<close>
theorem direction_field_stays_false:
  "lastScrollY (getScrollState (dispatch (Scroll (dbl 5)) readme_down)) = dbl 5
   \<and> ''scroll-up'' \<in> set (classList (nodes (dispatch (Scroll (dbl 5)) readme_down) 0))
   \<and> style_opacity (nodes (dispatch (Scroll (dbl 5)) readme_down) 5) = ''1''
   \<and> \<not> isScrollingUp (getScrollState (dispatch (Scroll (dbl 5)) readme_down))"
proof -
  let ?t = "readme_down\<lparr>scrollY := dbl 5\<rparr>"
  have c: "container (elements ?t) = Some 0" "navbarItemsSection (elements ?t) = Some 5"
    by (simp_all add: readme_down_instance readme_nav_instance)
  from showNavbar_total [OF c(1)] obtain s1 where s1: "showNavbar ?t = Inr s1" by blast
  have "isInitialized (scrollState ?t)" by (simp add: readme_down_instance)
  moreover have "num (scrollThreshold (config ?t))
      \<le> \<bar>num (scrollY ?t) - num (lastScrollY (scrollState ?t))\<bar>"
    by (simp add: readme_down_instance default_threshold num_dbl_numeral)
  ultimately have "handleScroll ?t =
     (case (if num (scrollY ?t) < num (lastScrollY (scrollState ?t))
            then showNavbar ?t else hideNavbar ?t) of
        Inl err \<Rightarrow> Inl err
      | Inr s1 \<Rightarrow> Inr (s1\<lparr>scrollState := (scrollState s1)\<lparr>lastScrollY := scrollY ?t\<rparr>\<rparr>))"
    by (rule handleScroll_qualifying)
  with s1 have "handleScroll ?t = Inr (s1\<lparr>scrollState := (scrollState s1)\<lparr>lastScrollY := dbl 5\<rparr>\<rparr>)"
    by (simp add: readme_down_instance num_dbl_numeral)
  then have d: "dispatch (Scroll (dbl 5)) readme_down
      = s1\<lparr>scrollState := (scrollState s1)\<lparr>lastScrollY := dbl 5\<rparr>\<rparr>"
    by (simp add: Let_def readme_down_instance)
  have e: "dispatch (Scroll (dbl 5)) readme_down
      = run [Scroll (dbl 50), Scroll (dbl 5)] (constructor no_options readme_page)"
    by (simp only: readme_down_def readme_nav_def run.simps)
  have "\<not> isScrollingUp (getScrollState (dispatch (Scroll (dbl 5)) readme_down))"
    unfolding e by (rule direction_field_constant)
  moreover have "lastScrollY (getScrollState (dispatch (Scroll (dbl 5)) readme_down)) = dbl 5"
    unfolding d by (simp add: getScrollState_def)
  moreover have "''scroll-up'' \<in> set (classList (nodes (dispatch (Scroll (dbl 5)) readme_down) 0))"
    "style_opacity (nodes (dispatch (Scroll (dbl 5)) readme_down) 5) = ''1''"
    unfolding d using c by (simp_all add: showNavbar_facts [OF s1])
  ultimately show ?thesis by blast
qed

section \<open>Construction and teardown\<close>

text \<open>
  Claim C4, as amended. When every one of the five lookups returns (no selector is
  malformed) and one or more of the container, the main section and the items section
  is not found, the constructor still returns: it logs one error whose message lists
  every missing role, in the order container, navbarMainSection, navbarItemsSection,
  and leaves the instance un-initialized. Whatever events follow, a scroll event then
  changes nothing but \<^verbatim>\<open>window.scrollY\<close>.
\<close>
theorem missing_required_elements_reported:
  assumes cfg: "cfg = spread default_config opts"
    and found: "querySelector page (containerSelector cfg) = Inr c"
      "querySelector page (ctaBtnContainerSelector cfg) = Inr cta"
      "querySelector page (logoContainerSelector cfg) = Inr logo"
      "querySelector page (navbarMainSectionSelector cfg) = Inr main"
      "querySelector page (navbarItemsSectionSelector cfg) = Inr items"
    and absent: "c = None \<or> main = None \<or> items = None"
  shows "console (constructor opts page) =
       console page @
         [(''CustomNavbarEffects initialization failed:'',
           Error (''Required elements not found: '' @ join '', ''
              ((if c = None then [''container''] else [])
               @ (if main = None then [''navbarMainSection''] else [])
               @ (if items = None then [''navbarItemsSection''] else []))))]
     \<and> \<not> isInitialized (scrollState (constructor opts page))
     \<and> (\<forall>evs y. dispatch (Scroll y) (run evs (constructor opts page))
                  = (run evs (constructor opts page))\<lparr>scrollY := y\<rparr>)"
proof -
  let ?s0 = "page\<lparr>config := spread default_config opts, elements := no_elements,
      dimensions := no_dimensions,
      scrollState := \<lparr>lastScrollY = dbl 0, isScrollingUp = False, isInitialized = False\<rparr>,
      scrollListener := False, resizeListener := False, loadListener := False\<rparr>"
  from found cfg have f: "querySelector ?s0 (containerSelector (config ?s0)) = Inr c"
      "querySelector ?s0 (ctaBtnContainerSelector (config ?s0)) = Inr cta"
      "querySelector ?s0 (logoContainerSelector (config ?s0)) = Inr logo"
      "querySelector ?s0 (navbarMainSectionSelector (config ?s0)) = Inr main"
      "querySelector ?s0 (navbarItemsSectionSelector (config ?s0)) = Inr items"
    by simp_all
  from cacheElements_missing [OF f absent] obtain s1 where ce: "cacheElements ?s0 =
       Inl (Error (''Required elements not found: '' @ join '', ''
              ((if c = None then [''container''] else [])
               @ (if main = None then [''navbarMainSection''] else [])
               @ (if items = None then [''navbarItemsSection''] else []))), s1)"
    by blast
  from cacheElements_throws [OF ce] have fr: "scrollState s1 = scrollState ?s0" "console s1 = console ?s0"
    by simp_all
  from ce fr have con: "console (constructor opts page) =
       console page @
         [(''CustomNavbarEffects initialization failed:'',
           Error (''Required elements not found: '' @ join '', ''
              ((if c = None then [''container''] else [])
               @ (if main = None then [''navbarMainSection''] else [])
               @ (if items = None then [''navbarItemsSection''] else []))))]"
    by (simp add: constructor_def init_def)
  from ce fr have un: "\<not> isInitialized (scrollState (constructor opts page))"
    by (simp add: constructor_def init_def)
  have "\<forall>evs y. dispatch (Scroll y) (run evs (constructor opts page))
                  = (run evs (constructor opts page))\<lparr>scrollY := y\<rparr>"
  proof (intro allI)
    fix evs y
    from un have "\<not> isInitialized (scrollState (run evs (constructor opts page)))"
      by (rule run_uninitialized)
    then show "dispatch (Scroll y) (run evs (constructor opts page))
                  = (run evs (constructor opts page))\<lparr>scrollY := y\<rparr>"
      by (rule dispatch_scroll_uninitialized)
  qed
  with con un show ?thesis by blast
qed

theorem missing_required_elements_witness:
  "querySelector readme_page (containerSelector (spread default_config
        (no_options\<lparr>opt_containerSelector := Some ''#navbar'',
                     opt_navbarItemsSectionSelector := Some ''.items''\<rparr>))) = Inr None
   \<and> querySelector readme_page (ctaBtnContainerSelector (spread default_config
        (no_options\<lparr>opt_containerSelector := Some ''#navbar'',
                     opt_navbarItemsSectionSelector := Some ''.items''\<rparr>))) = Inr (Some 6)
   \<and> querySelector readme_page (logoContainerSelector (spread default_config
        (no_options\<lparr>opt_containerSelector := Some ''#navbar'',
                     opt_navbarItemsSectionSelector := Some ''.items''\<rparr>))) = Inr (Some 4)
   \<and> querySelector readme_page (navbarMainSectionSelector (spread default_config
        (no_options\<lparr>opt_containerSelector := Some ''#navbar'',
                     opt_navbarItemsSectionSelector := Some ''.items''\<rparr>))) = Inr (Some 2)
   \<and> querySelector readme_page (navbarItemsSectionSelector (spread default_config
        (no_options\<lparr>opt_containerSelector := Some ''#navbar'',
                     opt_navbarItemsSectionSelector := Some ''.items''\<rparr>))) = Inr None
   \<and> console (constructor (no_options\<lparr>opt_containerSelector := Some ''#navbar'',
                     opt_navbarItemsSectionSelector := Some ''.items''\<rparr>) readme_page) =
       [(''CustomNavbarEffects initialization failed:'',
         Error ''Required elements not found: container, navbarItemsSection'')]
   \<and> \<not> isInitialized (scrollState (constructor (no_options\<lparr>opt_containerSelector := Some ''#navbar'',
                     opt_navbarItemsSectionSelector := Some ''.items''\<rparr>) readme_page))"
proof -
  let ?opts = "no_options\<lparr>opt_containerSelector := Some ''#navbar'',
                     opt_navbarItemsSectionSelector := Some ''.items''\<rparr>"
  have q: "querySelector readme_page (containerSelector (spread default_config ?opts)) = Inr None"
    "querySelector readme_page (ctaBtnContainerSelector (spread default_config ?opts)) = Inr (Some 6)"
    "querySelector readme_page (logoContainerSelector (spread default_config ?opts)) = Inr (Some 4)"
    "querySelector readme_page (navbarMainSectionSelector (spread default_config ?opts)) = Inr (Some 2)"
    "querySelector readme_page (navbarItemsSectionSelector (spread default_config ?opts)) = Inr None"
    by (simp_all add: spread_def default_config_def no_options_def readme_page_def readme_query_def)
  have h: "(None :: node option) = None \<or> Some (2 :: node) = None \<or> (None :: node option) = None"
    by simp
  have c: "console readme_page = []" by (simp add: readme_page_def)
  from missing_required_elements_reported [OF refl q h] q show ?thesis
    unfolding c by simp
qed

text \<open>
  With a malformed selector among the five the statement fails as it stood. The
  container selector names no element of the README page and the CTA selector is the
  empty string: the second lookup throws, and the one error logged is that
  \<^verbatim>\<open>SyntaxError\<close>, which names no role.
\<close>

theorem missing_required_elements_counterexample:
  "querySelector readme_page (containerSelector (spread default_config
        (no_options\<lparr>opt_containerSelector := Some ''#navbar'',
                     opt_ctaBtnContainerSelector := Some []\<rparr>))) = Inr None
   \<and> console (constructor (no_options\<lparr>opt_containerSelector := Some ''#navbar'',
                     opt_ctaBtnContainerSelector := Some []\<rparr>) readme_page) =
       [(''CustomNavbarEffects initialization failed:'',
         SyntaxError ''The provided selector is empty'')]
   \<and> console (constructor (no_options\<lparr>opt_containerSelector := Some ''#navbar'',
                     opt_ctaBtnContainerSelector := Some []\<rparr>) readme_page) \<noteq>
       [(''CustomNavbarEffects initialization failed:'',
         Error ''Required elements not found: container'')]"
  by (simp add: readme_defs Let_def)

text \<open>
  Claim C9, as amended. Once the five lookups have returned with the three required
  elements found, and provided the main section has a parent element,
  \<open>cacheElements\<close> returns and takes the spacers from the parent's children by
  position: the left spacer is the child at index 0 and the right spacer the child at
  index 2, each absent when the parent has no child at that index. A parent with fewer
  than three children raises no error: nothing is logged and the instance is
  initialized.
\<close>
theorem spacers_taken_by_position:
  assumes "querySelector s (containerSelector (config s)) = Inr (Some c)"
    and "querySelector s (ctaBtnContainerSelector (config s)) = Inr cta"
    and "querySelector s (logoContainerSelector (config s)) = Inr logo"
    and "querySelector s (navbarMainSectionSelector (config s)) = Inr (Some m)"
    and "querySelector s (navbarItemsSectionSelector (config s)) = Inr (Some i)"
    and "parentElement (nodes s m) = Some p"
  shows "\<exists>s'. cacheElements s = Inr s'
     \<and> leftEmpty (elements s') =
         (if 0 < length (children (nodes s p)) then Some (children (nodes s p) ! 0) else None)
     \<and> rightEmpty (elements s') =
         (if 2 < length (children (nodes s p)) then Some (children (nodes s p) ! 2) else None)
     \<and> console (init s) = console s
     \<and> isInitialized (scrollState (init s))"
  using assms(6) unfolding init_def cacheElements_found [OF assms(1-5)]
  by (simp add: Let_def element_at_def requiredElements_def item_def)

theorem spacers_taken_by_position_witness:
  "querySelector readme_page (containerSelector (config readme_page)) = Inr (Some 0)
   \<and> querySelector readme_page (ctaBtnContainerSelector (config readme_page)) = Inr (Some 6)
   \<and> querySelector readme_page (logoContainerSelector (config readme_page)) = Inr (Some 4)
   \<and> querySelector readme_page (navbarMainSectionSelector (config readme_page)) = Inr (Some 2)
   \<and> querySelector readme_page (navbarItemsSectionSelector (config readme_page)) = Inr (Some 5)
   \<and> parentElement (nodes readme_page 2) = Some 0
   \<and> (\<exists>s'. cacheElements readme_page = Inr s'
        \<and> leftEmpty (elements s') = Some 1 \<and> rightEmpty (elements s') = Some 3)
   \<and> querySelector narrow_page (containerSelector (config narrow_page)) = Inr (Some 0)
   \<and> querySelector narrow_page (ctaBtnContainerSelector (config narrow_page)) = Inr (Some 6)
   \<and> querySelector narrow_page (logoContainerSelector (config narrow_page)) = Inr (Some 4)
   \<and> querySelector narrow_page (navbarMainSectionSelector (config narrow_page)) = Inr (Some 2)
   \<and> querySelector narrow_page (navbarItemsSectionSelector (config narrow_page)) = Inr (Some 5)
   \<and> parentElement (nodes narrow_page 2) = Some 0
   \<and> (\<exists>s'. cacheElements narrow_page = Inr s'
        \<and> leftEmpty (elements s') = Some 2 \<and> rightEmpty (elements s') = None)
   \<and> console (init narrow_page) = []
   \<and> isInitialized (scrollState (init narrow_page))"
proof -
  have a: "querySelector readme_page (containerSelector (config readme_page)) = Inr (Some 0)"
    "querySelector readme_page (ctaBtnContainerSelector (config readme_page)) = Inr (Some 6)"
    "querySelector readme_page (logoContainerSelector (config readme_page)) = Inr (Some 4)"
    "querySelector readme_page (navbarMainSectionSelector (config readme_page)) = Inr (Some 2)"
    "querySelector readme_page (navbarItemsSectionSelector (config readme_page)) = Inr (Some 5)"
    "parentElement (nodes readme_page 2) = Some 0"
    by (simp_all add: readme_page_def readme_query_def readme_nodes_def default_config_def)
  have b: "querySelector narrow_page (containerSelector (config narrow_page)) = Inr (Some 0)"
    "querySelector narrow_page (ctaBtnContainerSelector (config narrow_page)) = Inr (Some 6)"
    "querySelector narrow_page (logoContainerSelector (config narrow_page)) = Inr (Some 4)"
    "querySelector narrow_page (navbarMainSectionSelector (config narrow_page)) = Inr (Some 2)"
    "querySelector narrow_page (navbarItemsSectionSelector (config narrow_page)) = Inr (Some 5)"
    "parentElement (nodes narrow_page 2) = Some 0"
    by (simp_all add: narrow_page_def readme_page_def readme_query_def readme_nodes_def
        default_config_def)
  have ch: "children (nodes readme_page 0) = [1, 2, 3]" "children (nodes narrow_page 0) = [2]"
    "console narrow_page = []"
    by (simp_all add: narrow_page_def readme_page_def readme_nodes_def)
  from spacers_taken_by_position [OF a] spacers_taken_by_position [OF b] a b
  show ?thesis unfolding ch by auto
qed

text \<open>
  Without a parent element the statement fails as it stood. With the root element
  as main section the three required elements are found, yet reading the children of
  its absent parent throws: an error is logged and the instance is not initialized.
\<close>

theorem spacers_taken_by_position_counterexample:
  "querySelector readme_page (containerSelector (spread default_config
        (no_options\<lparr>opt_navbarMainSectionSelector := Some ''html''\<rparr>))) = Inr (Some 0)
   \<and> querySelector readme_page (navbarMainSectionSelector (spread default_config
        (no_options\<lparr>opt_navbarMainSectionSelector := Some ''html''\<rparr>))) = Inr (Some 7)
   \<and> querySelector readme_page (navbarItemsSectionSelector (spread default_config
        (no_options\<lparr>opt_navbarMainSectionSelector := Some ''html''\<rparr>))) = Inr (Some 5)
   \<and> parentElement (nodes readme_page 7) = None
   \<and> console (constructor (no_options\<lparr>opt_navbarMainSectionSelector := Some ''html''\<rparr>)
        readme_page) =
       [(''CustomNavbarEffects initialization failed:'', TypeError ''parentElement is null'')]
   \<and> \<not> isInitialized (scrollState
        (constructor (no_options\<lparr>opt_navbarMainSectionSelector := Some ''html''\<rparr>) readme_page))"
  by (simp add: readme_defs Let_def)

text \<open>
  Claim C8. After \<open>destroy\<close>, and whatever events follow it, the scroll handler returns the
  state it was given and a dispatched scroll event changes nothing but
  \<^verbatim>\<open>window.scrollY\<close>. The teardown leaves the element cache, the dimension cache,
  the store and the configuration as they were, and of the scroll state it clears the
  initialized flag only.
\<close>
theorem scroll_after_destroy_is_inert:
  "handleScroll ((run evs (destroy s))\<lparr>scrollY := y\<rparr>) = Inr ((run evs (destroy s))\<lparr>scrollY := y\<rparr>)
   \<and> dispatch (Scroll y) (run evs (destroy s)) = (run evs (destroy s))\<lparr>scrollY := y\<rparr>
   \<and> elements (destroy s) = elements s
   \<and> dimensions (destroy s) = dimensions s
   \<and> nodes (destroy s) = nodes s
   \<and> getConfig (destroy s) = getConfig s
   \<and> getScrollState (destroy s) = (getScrollState s)\<lparr>isInitialized := False\<rparr>"
proof -
  have un: "\<not> isInitialized (scrollState (run evs (destroy s)))"
    by (rule run_uninitialized) simp
  then have "\<not> isInitialized (scrollState ((run evs (destroy s))\<lparr>scrollY := y\<rparr>))"
    by simp
  then have a: "handleScroll ((run evs (destroy s))\<lparr>scrollY := y\<rparr>)
      = Inr ((run evs (destroy s))\<lparr>scrollY := y\<rparr>)"
    by (rule handleScroll_uninitialized)
  from un have b: "dispatch (Scroll y) (run evs (destroy s)) = (run evs (destroy s))\<lparr>scrollY := y\<rparr>"
    by (rule dispatch_scroll_uninitialized)
  have c: "getScrollState (destroy s) = (getScrollState s)\<lparr>isInitialized := False\<rparr>"
    by (simp add: getScrollState_def destroy_def)
  have d: "getConfig (destroy s) = getConfig s" by (simp add: getConfig_def)
  from a b c d show ?thesis by simp
qed

section \<open>Reconfiguration\<close>

text \<open>
  Claim C6. For each of the seven configuration fields and each value, \<open>updateConfig\<close> with an
  object holding that one field, followed by \<open>getConfig\<close>, gives the former
  configuration with that field set to the value and every other field as before.
\<close>
theorem updateConfig_then_getConfig:
  "getConfig (updateConfig (no_options\<lparr>opt_containerSelector := Some v1\<rparr>) s)
     = (getConfig s)\<lparr>containerSelector := v1\<rparr>
   \<and> getConfig (updateConfig (no_options\<lparr>opt_ctaBtnContainerSelector := Some v2\<rparr>) s)
     = (getConfig s)\<lparr>ctaBtnContainerSelector := v2\<rparr>
   \<and> getConfig (updateConfig (no_options\<lparr>opt_logoContainerSelector := Some v3\<rparr>) s)
     = (getConfig s)\<lparr>logoContainerSelector := v3\<rparr>
   \<and> getConfig (updateConfig (no_options\<lparr>opt_navbarMainSectionSelector := Some v4\<rparr>) s)
     = (getConfig s)\<lparr>navbarMainSectionSelector := v4\<rparr>
   \<and> getConfig (updateConfig (no_options\<lparr>opt_navbarItemsSectionSelector := Some v5\<rparr>) s)
     = (getConfig s)\<lparr>navbarItemsSectionSelector := v5\<rparr>
   \<and> getConfig (updateConfig (no_options\<lparr>opt_scrollThreshold := Some v6\<rparr>) s)
     = (getConfig s)\<lparr>scrollThreshold := v6\<rparr>
   \<and> getConfig (updateConfig (no_options\<lparr>opt_transitionDuration := Some v7\<rparr>) s)
     = (getConfig s)\<lparr>transitionDuration := v7\<rparr>"
  by (simp add: getConfig_def spread_def no_options_def)

text \<open>
  Claim C7. The claim has \<open>updateConfig\<close> re-run the transition setup whenever the duration
  field is present. The code tests the truth value of the field, so a duration of 0 is
  stored in the configuration while the inline transitions keep the former 200
  milliseconds; a duration of 300 is stored and applied, and the constructor, which
  runs the setup without a test, applies a duration of 0 as well.
\<close>
theorem zero_duration_keeps_old_transitions:
  "transitionDuration (getConfig (updateConfig (no_options\<lparr>opt_transitionDuration := Some 0\<rparr>) readme_nav)) = 0
   \<and> style_transition (nodes (updateConfig (no_options\<lparr>opt_transitionDuration := Some 0\<rparr>) readme_nav) 5)
       = ''opacity 200ms ease-in-out''
   \<and> style_transition (nodes (updateConfig (no_options\<lparr>opt_transitionDuration := Some 0\<rparr>) readme_nav) 1)
       = ''width 200ms ease-in-out''
   \<and> style_transition (nodes (updateConfig (no_options\<lparr>opt_transitionDuration := Some 300\<rparr>) readme_nav) 5)
       = ''opacity 300ms ease-in-out''
   \<and> style_transition (nodes (updateConfig (no_options\<lparr>opt_transitionDuration := Some 300\<rparr>) readme_nav) 1)
       = ''width 300ms ease-in-out''
   \<and> style_transition (nodes (constructor (no_options\<lparr>opt_transitionDuration := Some 0\<rparr>) readme_page) 5)
       = ''opacity 0ms ease-in-out''"
proof -
  have k: "style_transition (nodes (constructor (no_options\<lparr>opt_transitionDuration := Some 0\<rparr>) readme_page) 5)
       = ''opacity 0ms ease-in-out''"
    by (simp add: readme_defs Let_def updateDimensions_def setupTransitions_def
        set_width_def set_transition_def number_to_string_def digits.simps digit_char_def)
  have z: "updateConfig (no_options\<lparr>opt_transitionDuration := Some 0\<rparr>) readme_nav
      = readme_nav\<lparr>config := spread (config readme_nav) (no_options\<lparr>opt_transitionDuration := Some 0\<rparr>)\<rparr>"
    by (rule updateConfig_zero_duration) simp
  have n: "updateConfig (no_options\<lparr>opt_transitionDuration := Some 300\<rparr>) readme_nav
      = setupTransitions (readme_nav\<lparr>config := spread (config readme_nav) (no_options\<lparr>opt_transitionDuration := Some 300\<rparr>)\<rparr>)"
    by (rule updateConfig_nonzero_duration [where d = 300]) simp_all
  have "number_to_string 300 = ''300''"
    by (simp add: number_to_string_def digits.simps digit_char_def)
  with k show ?thesis
    unfolding z n
    by (simp add: getConfig_def spread_def no_options_def readme_nav_styles
        readme_nav_styles [unfolded One_nat_def] setupTransitions_transition readme_nav_instance)
qed

section \<open>Spacer widths\<close>

text \<open>
  Claim C10. With a container at hand and two distinct spacers (two positions of a children
  collection never hold the same element), hiding sets the inline width of each spacer
  held to \<^verbatim>\<open>0px\<close> whatever the cache holds, while showing sets it to the cached
  width only when that width is a number other than 0 and otherwise leaves it as it is.
  So a spacer whose cached width is 0 or missing still has the width \<^verbatim>\<open>0px\<close> when
  the navbar is hidden and shown again.
\<close>
theorem hide_show_spacer_asymmetry:
  assumes c: "container (elements s) = Some c"
    and apart: "\<forall>e. leftEmpty (elements s) = Some e \<longrightarrow> rightEmpty (elements s) \<noteq> Some e"
  shows "\<exists>h v hv. hideNavbar s = Inr h \<and> showNavbar s = Inr v \<and> showNavbar h = Inr hv
     \<and> (\<forall>e. leftEmpty (elements s) = Some e \<longrightarrow>
           style_width (nodes h e) = ''0px''
         \<and> (\<forall>w. leftEmptyWidth (dimensions s) = Some w \<longrightarrow> w \<noteq> 0 \<longrightarrow>
               style_width (nodes v e) = px w)
         \<and> (leftEmptyWidth (dimensions s) = Some 0 \<or> leftEmptyWidth (dimensions s) = None \<longrightarrow>
               style_width (nodes v e) = style_width (nodes s e)
             \<and> style_width (nodes hv e) = ''0px''))
     \<and> (\<forall>e. rightEmpty (elements s) = Some e \<longrightarrow>
           style_width (nodes h e) = ''0px''
         \<and> (\<forall>w. rightEmptyWidth (dimensions s) = Some w \<longrightarrow> w \<noteq> 0 \<longrightarrow>
               style_width (nodes v e) = px w)
         \<and> (rightEmptyWidth (dimensions s) = Some 0 \<or> rightEmptyWidth (dimensions s) = None \<longrightarrow>
               style_width (nodes v e) = style_width (nodes s e)
             \<and> style_width (nodes hv e) = ''0px''))"
proof -
  from hideNavbar_total [OF c] obtain h where h: "hideNavbar s = Inr h" by blast
  from showNavbar_total [OF c] obtain v where v: "showNavbar s = Inr v" by blast
  from c have "container (elements h) = Some c" by (simp add: hideNavbar_facts [OF h])
  from showNavbar_total [OF this] obtain hv where hv: "showNavbar h = Inr hv" by blast
  have "(\<forall>e. leftEmpty (elements s) = Some e \<longrightarrow>
           style_width (nodes h e) = ''0px''
         \<and> (\<forall>w. leftEmptyWidth (dimensions s) = Some w \<longrightarrow> w \<noteq> 0 \<longrightarrow>
               style_width (nodes v e) = px w)
         \<and> (leftEmptyWidth (dimensions s) = Some 0 \<or> leftEmptyWidth (dimensions s) = None \<longrightarrow>
               style_width (nodes v e) = style_width (nodes s e)
             \<and> style_width (nodes hv e) = ''0px''))"
    using apart
    by (auto simp add: showNavbar_facts [OF hv] hideNavbar_facts [OF h] showNavbar_facts [OF v]
        truthy_def)
  moreover have "(\<forall>e. rightEmpty (elements s) = Some e \<longrightarrow>
           style_width (nodes h e) = ''0px''
         \<and> (\<forall>w. rightEmptyWidth (dimensions s) = Some w \<longrightarrow> w \<noteq> 0 \<longrightarrow>
               style_width (nodes v e) = px w)
         \<and> (rightEmptyWidth (dimensions s) = Some 0 \<or> rightEmptyWidth (dimensions s) = None \<longrightarrow>
               style_width (nodes v e) = style_width (nodes s e)
             \<and> style_width (nodes hv e) = ''0px''))"
    using apart
    by (auto simp add: showNavbar_facts [OF hv] hideNavbar_facts [OF h] showNavbar_facts [OF v]
        truthy_def)
  ultimately show ?thesis using h v hv by blast
qed

theorem hide_show_spacer_asymmetry_witness:
  "container (elements readme_flat) = Some 0
   \<and> leftEmpty (elements readme_flat) = Some 1
   \<and> rightEmpty (elements readme_flat) = Some 3
   \<and> leftEmptyWidth (dimensions readme_flat) = Some 80
   \<and> rightEmptyWidth (dimensions readme_flat) = Some 0
   \<and> (\<exists>h v hv. hideNavbar readme_flat = Inr h \<and> showNavbar readme_flat = Inr v
        \<and> showNavbar h = Inr hv
        \<and> style_width (nodes h 1) = ''0px'' \<and> style_width (nodes h 3) = ''0px''
        \<and> style_width (nodes v 1) = ''80px'' \<and> style_width (nodes v 3) = ''0px''
        \<and> style_width (nodes hv 3) = ''0px'')"
proof -
  have c: "container (elements readme_flat) = Some 0"
    by (simp add: readme_flat_instance readme_nav_instance)
  have a: "\<forall>e. leftEmpty (elements readme_flat) = Some e \<longrightarrow> rightEmpty (elements readme_flat) \<noteq> Some e"
    by (simp add: readme_flat_instance readme_nav_instance)
  have d: "leftEmptyWidth (dimensions readme_flat) = Some 80"
    "rightEmptyWidth (dimensions readme_flat) = Some 0"
    by (simp_all add: readme_flat_instance)
  have e: "leftEmpty (elements readme_flat) = Some 1" "rightEmpty (elements readme_flat) = Some 3"
    by (simp_all add: readme_flat_instance readme_nav_instance)
  from hide_show_spacer_asymmetry [OF c a] c d e show ?thesis
    unfolding e d by (auto simp add: px_80 readme_flat_instance)
qed

end
